theory Spec2Isabelle
  imports Main
begin

section \<open>Values and strings\<close>

text \<open>
  Condition values, insert/update payloads and the documents of the document compiler are
  TypeScript \<open>any\<close>. They are modelled as JSON-like values. A number is an integer here
  (fractions, NaN and infinities are not modelled). The entries of an object are
  described below.
\<close>

datatype jsval =
    JNull
  | JBool bool
  | JNum int
  | JStr string
  | JArr "jsval list"
  | JObj "(string \<times> jsval) list"

text \<open>\<open>Array.prototype.join\<close> on an array of strings.\<close>

fun join :: "string \<Rightarrow> string list \<Rightarrow> string" where
  "join sep [] = []"
| "join sep [x] = x"
| "join sep (x # y # ys) = x @ sep @ join sep (y # ys)"

text \<open>
  Decimal rendering of a number inside a template literal: the decimal digits, most
  significant first, then their characters.
\<close>

fun digits :: "nat \<Rightarrow> nat list" where
  "digits n = (if n < 10 then [n] else digits (n div 10) @ [n mod 10])"

declare digits.simps [simp del]

definition digit_char :: "nat \<Rightarrow> char" where
  "digit_char d = char_of (of_char (CHR ''0'') + d)"

definition show_nat :: "nat \<Rightarrow> string" where
  "show_nat n = map digit_char (digits n)"

definition show_int :: "int \<Rightarrow> string" where
  "show_int i = (if 0 \<le> i then show_nat (nat i) else CHR ''-'' # show_nat (nat (- i)))"

text \<open>\<open>String.prototype.toUpperCase\<close>, on ASCII letters.\<close>

definition upper_char :: "char \<Rightarrow> char" where
  "upper_char c =
     (let n = (of_char c :: nat) in if 97 \<le> n \<and> n \<le> 122 then char_of (n - 32) else c)"

definition toUpperCase :: "string \<Rightarrow> string" where
  "toUpperCase s = map upper_char s"

text \<open>Reading a run of decimal digits.\<close>

definition is_digit :: "char \<Rightarrow> bool" where
  "is_digit c = (let n = (of_char c :: nat) in 48 \<le> n \<and> n \<le> 57)"

definition digit_val :: "char \<Rightarrow> nat" where
  "digit_val c = of_char c - 48"

definition read_nat :: "string \<Rightarrow> nat" where
  "read_nat ds = foldl (\<lambda>a c. 10 * a + digit_val c) 0 ds"

text \<open>
  An object is kept as the list of its own enumerable entries in the order the engine
  enumerates them: the keys that are canonical array indices first, in ascending numeric
  order, then the other keys in the order they were created. The prototype of an object
  is not part of the model; the compilers never read a property back from the objects
  they fill.
\<close>

definition is_array_index :: "string \<Rightarrow> bool" where
  "is_array_index k =
     (k \<noteq> [] \<and> list_all is_digit k \<and> (k = ''0'' \<or> hd k \<noteq> CHR ''0'')
      \<and> read_nat k < 4294967295)"

fun obj_replace :: "(string \<times> jsval) list \<Rightarrow> string \<Rightarrow> jsval \<Rightarrow> (string \<times> jsval) list" where
  "obj_replace [] k v = []"
| "obj_replace ((k', v') # kvs) k v =
     (if k' = k then (k, v) # kvs else (k', v') # obj_replace kvs k v)"

fun obj_insert_index ::
  "nat \<Rightarrow> string \<Rightarrow> jsval \<Rightarrow> (string \<times> jsval) list \<Rightarrow> (string \<times> jsval) list" where
  "obj_insert_index n k v [] = [(k, v)]"
| "obj_insert_index n k v ((k', v') # kvs) =
     (if is_array_index k' \<and> read_nat k' < n then (k', v') # obj_insert_index n k v kvs
      else (k, v) # (k', v') # kvs)"

text \<open>
  Creating or overwriting an own property, as an object literal with a computed key and
  \<open>Object.fromEntries\<close> do: an existing key keeps its place and takes the new value, a new
  array index goes to its numeric place, any other new key to the end.
\<close>

definition obj_define :: "(string \<times> jsval) list \<Rightarrow> string \<Rightarrow> jsval \<Rightarrow> (string \<times> jsval) list" where
  "obj_define kvs k v =
     (if k \<in> set (map fst kvs) then obj_replace kvs k v
      else if is_array_index k then obj_insert_index (read_nat k) k v kvs
      else kvs @ [(k, v)])"

text \<open>
  Assignment \<open>obj[key] = v\<close> on a plain object. It is the same, except for the key
  \<open>__proto__\<close>: unless the object has an own property of that name, the assignment goes
  to the accessor inherited from \<open>Object.prototype\<close>, which replaces the prototype (or
  does nothing, for a value that is neither an object nor null) and creates no entry.
\<close>

definition obj_set :: "(string \<times> jsval) list \<Rightarrow> string \<Rightarrow> jsval \<Rightarrow> (string \<times> jsval) list" where
  "obj_set kvs k v =
     (if k = ''__proto__'' \<and> k \<notin> set (map fst kvs) then kvs else obj_define kvs k v)"

section \<open>The query AST (core/query.ts)\<close>

datatype Operator = Eq | Gt | Lt | Gte | Lte | In

record Condition =
  c_field :: string
  c_operator :: Operator
  c_value :: jsval

datatype GroupType = AND | OR

datatype LogicalCondition = Flat Condition | Nested LogicalGroup
  and LogicalGroup = LogicalGroup (g_type: GroupType) (g_conditions: "LogicalCondition list")

datatype AggFunction = Count | Sum | Avg | Min | Max

record AggregationOp =
  agg_function :: AggFunction
  agg_field :: string
  agg_alias :: "string option"

datatype Direction = Asc | Desc

record OrderBy =
  ob_field :: string
  ob_direction :: Direction

datatype QueryType = Select | Insert | Update | Delete

record QueryAST =
  q_type :: QueryType
  q_table :: string
  q_conditions :: "Condition list option"
  q_logical :: "LogicalGroup list option"
  q_groupBy :: "string list option"
  q_aggregations :: "AggregationOp list option"
  q_data :: "(string \<times> jsval) list option"
  q_limit :: "int option"
  q_offset :: "int option"
  q_orderBy :: "OrderBy option"
  q_select :: "string list option"
  q_intent :: "string option"

text \<open>The string behind each enumeration literal.\<close>

fun function_name :: "AggFunction \<Rightarrow> string" where
  "function_name Count = ''count''"
| "function_name Sum = ''sum''"
| "function_name Avg = ''avg''"
| "function_name Min = ''min''"
| "function_name Max = ''max''"

fun direction_name :: "Direction \<Rightarrow> string" where
  "direction_name Asc = ''asc''"
| "direction_name Desc = ''desc''"

fun group_type_name :: "GroupType \<Rightarrow> string" where
  "group_type_name AND = ''AND''"
| "group_type_name OR = ''OR''"

section \<open>Capabilities and the validator (core/adapter.ts, core/planner.ts)\<close>

record AdapterCapabilities =
  supportsTransactions :: bool
  supportsAggregation :: bool
  supportsJoins :: bool
  supportsSchemaSync :: bool

datatype error =
    CapabilityError string
  | TypeError
  | BackendError string

text \<open>The test \<open>xs && xs.length > 0\<close> on an optional list.\<close>

definition nonEmpty :: "'a list option \<Rightarrow> bool" where
  "nonEmpty xs = (case xs of None \<Rightarrow> False | Some ys \<Rightarrow> 0 < length ys)"

definition validateQuery :: "QueryAST \<Rightarrow> AdapterCapabilities \<Rightarrow> error + bool" where
  "validateQuery query capabilities =
     (if \<not> supportsAggregation capabilities then
        (if nonEmpty (q_aggregations query) then
           Inl (CapabilityError ''Adapter does not support aggregations'')
         else if nonEmpty (q_groupBy query) then
           Inl (CapabilityError ''Adapter does not support grouping'')
         else Inr True)
      else Inr True)"

section \<open>The relational compiler (adapters/postgres.ts)\<close>

fun mapOperator :: "Operator \<Rightarrow> string" where
  "mapOperator Eq = ''=''"
| "mapOperator Gt = ''>''"
| "mapOperator Lt = ''<''"
| "mapOperator Gte = ''>=''"
| "mapOperator Lte = ''<=''"
| "mapOperator In = ''IN''"

text \<open>
  The positional value list \<open>values\<close> is mutated by \<open>push\<close> in the source; here every
  builder takes the list and returns it updated. \<open>pushAll\<close> is the callback of
  \<open>c.value.map\<close> in \<open>buildCondition\<close>: each element is pushed, and its placeholder is
  numbered with the length of the list right after the push.
\<close>

fun pushAll :: "jsval list \<Rightarrow> jsval list \<Rightarrow> string list \<times> jsval list" where
  "pushAll [] vals = ([], vals)"
| "pushAll (v # vs) vals =
     (let vals1 = vals @ [v];
          p = ''$'' @ show_nat (length vals1);
          (ps, vals2) = pushAll vs vals1
      in (p # ps, vals2))"

definition Postgres_buildCondition :: "Condition \<Rightarrow> jsval list \<Rightarrow> string \<times> jsval list" where
  "Postgres_buildCondition c vals =
     (case (c_operator c, c_value c) of
        (In, JArr xs) \<Rightarrow>
          (if length xs = 0 then (''1=0'', vals)
           else (let (placeholders, vals1) = pushAll xs vals
                 in (c_field c @ '' IN ('' @ join '', '' placeholders @ '')'', vals1)))
      | _ \<Rightarrow>
          (let vals1 = vals @ [c_value c]
           in (c_field c @ '' '' @ mapOperator (c_operator c) @ '' $'' @ show_nat (length vals1),
               vals1)))"

text \<open>
  \<open>buildLogicalGroup\<close> maps over the children of a group from left to right, recursing into
  nested groups; \<open>Postgres_buildChildren\<close> is that traversal.
\<close>

fun Postgres_buildLogicalGroup :: "LogicalGroup \<Rightarrow> jsval list \<Rightarrow> string \<times> jsval list"
  and Postgres_buildChildren :: "LogicalCondition list \<Rightarrow> jsval list \<Rightarrow> string list \<times> jsval list"
where
  "Postgres_buildLogicalGroup (LogicalGroup t cs) vals =
     (if length cs = 0 then (''1=1'', vals)
      else (let (clauses, vals1) = Postgres_buildChildren cs vals
            in (''('' @ join ('' '' @ group_type_name t @ '' '') clauses @ '')'', vals1)))"
| "Postgres_buildChildren [] vals = ([], vals)"
| "Postgres_buildChildren (Flat c # cs) vals =
     (let (s, vals1) = Postgres_buildCondition c vals;
          (ss, vals2) = Postgres_buildChildren cs vals1
      in (s # ss, vals2))"
| "Postgres_buildChildren (Nested g # cs) vals =
     (let (s, vals1) = Postgres_buildLogicalGroup g vals;
          (ss, vals2) = Postgres_buildChildren cs vals1
      in (s # ss, vals2))"

text \<open>The two \<open>for\<close> loops of \<open>buildWhere\<close>.\<close>

fun Postgres_buildConditions :: "Condition list \<Rightarrow> jsval list \<Rightarrow> string list \<times> jsval list" where
  "Postgres_buildConditions [] vals = ([], vals)"
| "Postgres_buildConditions (c # cs) vals =
     (let (s, vals1) = Postgres_buildCondition c vals;
          (ss, vals2) = Postgres_buildConditions cs vals1
      in (s # ss, vals2))"

fun Postgres_buildGroups :: "LogicalGroup list \<Rightarrow> jsval list \<Rightarrow> string list \<times> jsval list" where
  "Postgres_buildGroups [] vals = ([], vals)"
| "Postgres_buildGroups (g # gs) vals =
     (let (s, vals1) = Postgres_buildLogicalGroup g vals;
          (ss, vals2) = Postgres_buildGroups gs vals1
      in (s # ss, vals2))"

definition Postgres_buildWhere :: "QueryAST \<Rightarrow> jsval list \<Rightarrow> string \<times> jsval list" where
  "Postgres_buildWhere query vals =
     (let (clauses1, vals1) =
            (case q_conditions query of
               None \<Rightarrow> ([], vals)
             | Some cs \<Rightarrow> Postgres_buildConditions cs vals);
          (clauses2, vals2) =
            (case q_logical query of
               None \<Rightarrow> ([], vals1)
             | Some gs \<Rightarrow> Postgres_buildGroups gs vals1);
          clauses = clauses1 @ clauses2
      in (if length clauses \<noteq> 0 then '' WHERE '' @ join '' AND '' clauses else [], vals2))"

text \<open>One pushed select item per aggregation; an empty alias is falsy and adds no \<open>AS\<close>.\<close>

definition aggStr :: "AggregationOp \<Rightarrow> string" where
  "aggStr agg =
     (let func = toUpperCase (function_name (agg_function agg));
          s = func @ ''('' @ agg_field agg @ '')''
      in (case agg_alias agg of
            None \<Rightarrow> s
          | Some a \<Rightarrow> if a = [] then s else s @ '' AS '' @ a))"

definition Postgres_buildSelect :: "QueryAST \<Rightarrow> string \<times> jsval list" where
  "Postgres_buildSelect query =
     (let selectItems0 = (case q_select query of None \<Rightarrow> [] | Some fs \<Rightarrow> fs);
          selectItems = (case q_aggregations query of
                           None \<Rightarrow> selectItems0
                         | Some aggs \<Rightarrow> selectItems0 @ map aggStr aggs);
          text0 = (if 0 < length selectItems
                   then ''SELECT '' @ join '', '' selectItems @ '' FROM '' @ q_table query
                   else ''SELECT * FROM '' @ q_table query);
          (w, vals) = Postgres_buildWhere query [];
          text1 = text0 @ w;
          text2 = (case q_groupBy query of
                     None \<Rightarrow> text1
                   | Some gb \<Rightarrow> text1 @ '' GROUP BY '' @ join '', '' gb);
          text3 = (case q_orderBy query of
                     None \<Rightarrow> text2
                   | Some ob \<Rightarrow> text2 @ '' ORDER BY '' @ ob_field ob @ '' ''
                               @ toUpperCase (direction_name (ob_direction ob)));
          text4 = (case q_limit query of
                     None \<Rightarrow> text3
                   | Some n \<Rightarrow> text3 @ '' LIMIT '' @ show_int n);
          text5 = (case q_offset query of
                     None \<Rightarrow> text4
                   | Some n \<Rightarrow> text4 @ '' OFFSET '' @ show_int n)
      in (text5, vals))"

text \<open>
  \<open>buildInsert\<close> and \<open>buildUpdate\<close> read \<open>Object.keys(query.data!)\<close>, which throws a
  \<open>TypeError\<close> when \<open>data\<close> is undefined.
\<close>

definition Postgres_buildInsert :: "QueryAST \<Rightarrow> error + string \<times> jsval list" where
  "Postgres_buildInsert query =
     (case q_data query of
        None \<Rightarrow> Inl TypeError
      | Some d \<Rightarrow>
          (let keys = map fst d;
               vals = map snd d;
               placeholders = map (\<lambda>i. ''$'' @ show_nat (i + 1)) [0 ..< length keys]
           in Inr (''INSERT INTO '' @ q_table query @ '' ('' @ join '', '' keys
                   @ '') VALUES ('' @ join '', '' placeholders @ '') RETURNING *'', vals)))"

definition Postgres_buildUpdate :: "QueryAST \<Rightarrow> error + string \<times> jsval list" where
  "Postgres_buildUpdate query =
     (case q_data query of
        None \<Rightarrow> Inl TypeError
      | Some d \<Rightarrow>
          (let keys = map fst d;
               vals = map snd d;
               setClauses = map (\<lambda>(k, i). k @ '' = $'' @ show_nat (i + 1))
                              (zip keys [0 ..< length keys]);
               text0 = ''UPDATE '' @ q_table query @ '' SET '' @ join '', '' setClauses;
               (w, vals1) = Postgres_buildWhere query vals
           in Inr (text0 @ w, vals1)))"

definition Postgres_buildDelete :: "QueryAST \<Rightarrow> string \<times> jsval list" where
  "Postgres_buildDelete query =
     (let text0 = ''DELETE FROM '' @ q_table query;
          (w, vals) = Postgres_buildWhere query []
      in (text0 @ w, vals))"

definition Postgres_translate :: "QueryAST \<Rightarrow> error + string \<times> jsval list" where
  "Postgres_translate query =
     (case q_type query of
        Select \<Rightarrow> Inr (Postgres_buildSelect query)
      | Insert \<Rightarrow> Postgres_buildInsert query
      | Update \<Rightarrow> Postgres_buildUpdate query
      | Delete \<Rightarrow> Inr (Postgres_buildDelete query))"

text \<open>The plan an adapter hands to the router (core/adapter.ts).\<close>

datatype PlanType = Sql | MongoPipeline | MongoQuery

record QueryPlan =
  p_type :: PlanType
  p_query :: "string option"
  p_values :: "jsval list option"
  p_filter :: "jsval option"
  p_pipeline :: "jsval list option"
  p_options :: "jsval option"
  p_data :: "(string \<times> jsval) list option"

definition emptyPlan :: "PlanType \<Rightarrow> QueryPlan" where
  "emptyPlan t = \<lparr>p_type = t, p_query = None, p_values = None, p_filter = None,
                   p_pipeline = None, p_options = None, p_data = None\<rparr>"

definition Postgres_plan :: "QueryAST \<Rightarrow> error + QueryPlan" where
  "Postgres_plan query =
     (case Postgres_translate query of
        Inl e \<Rightarrow> Inl e
      | Inr (txt, vals) \<Rightarrow> Inr ((emptyPlan Sql)\<lparr>p_query := Some txt, p_values := Some vals\<rparr>))"

section \<open>The document compiler (adapters/mongo.ts)\<close>

definition Mongo_buildCondition :: "Condition \<Rightarrow> jsval" where
  "Mongo_buildCondition cond =
     (case c_operator cond of
        Eq \<Rightarrow> JObj [(c_field cond, c_value cond)]
      | Gt \<Rightarrow> JObj [(c_field cond, JObj [(''$gt'', c_value cond)])]
      | Lt \<Rightarrow> JObj [(c_field cond, JObj [(''$lt'', c_value cond)])]
      | Gte \<Rightarrow> JObj [(c_field cond, JObj [(''$gte'', c_value cond)])]
      | Lte \<Rightarrow> JObj [(c_field cond, JObj [(''$lte'', c_value cond)])]
      | In \<Rightarrow> JObj [(c_field cond,
                      JObj [(''$in'', (case c_value cond of
                                         JArr xs \<Rightarrow> JArr xs
                                       | v \<Rightarrow> JArr [v]))])])"

fun Mongo_buildLogicalGroup :: "LogicalGroup \<Rightarrow> jsval"
  and Mongo_buildChildren :: "LogicalCondition list \<Rightarrow> jsval list"
where
  "Mongo_buildLogicalGroup (LogicalGroup t cs) =
     (if length cs = 0 then JObj []
      else (let clauses = Mongo_buildChildren cs
            in (case t of
                  AND \<Rightarrow> JObj [(''$and'', JArr clauses)]
                | OR \<Rightarrow> JObj [(''$or'', JArr clauses)])))"
| "Mongo_buildChildren [] = []"
| "Mongo_buildChildren (Flat c # cs) = Mongo_buildCondition c # Mongo_buildChildren cs"
| "Mongo_buildChildren (Nested g # cs) = Mongo_buildLogicalGroup g # Mongo_buildChildren cs"

definition Mongo_buildFilter :: "QueryAST \<Rightarrow> jsval" where
  "Mongo_buildFilter query =
     (let andClauses1 = (case q_conditions query of
                           None \<Rightarrow> []
                         | Some cs \<Rightarrow> map Mongo_buildCondition cs);
          andClauses = (case q_logical query of
                          None \<Rightarrow> andClauses1
                        | Some gs \<Rightarrow> andClauses1 @ map Mongo_buildLogicalGroup gs)
      in if length andClauses = 1 then andClauses ! 0
         else if 1 < length andClauses then JObj [(''$and'', JArr andClauses)]
         else JObj [])"

text \<open>
  \<open>Object.keys\<close>; the compiler applies it to the result of \<open>buildFilter\<close>, which is always
  an object.
\<close>

fun Object_keys :: "jsval \<Rightarrow> string list" where
  "Object_keys (JObj kvs) = map fst kvs"
| "Object_keys _ = []"

text \<open>\<open>Object.fromEntries\<close>: the entries are defined in order.\<close>

definition Object_fromEntries :: "(string \<times> jsval) list \<Rightarrow> (string \<times> jsval) list" where
  "Object_fromEntries es = foldl (\<lambda>obj (k, v). obj_define obj k v) [] es"

text \<open>The loop over \<open>query.groupBy\<close> that fills a compound \<open>_id\<close>.\<close>

fun groupIdFields :: "string list \<Rightarrow> (string \<times> jsval) list \<Rightarrow> (string \<times> jsval) list" where
  "groupIdFields [] idObj = idObj"
| "groupIdFields (f # fs) idObj = groupIdFields fs (obj_set idObj f (JStr (''$'' @ f)))"

text \<open>The output key of an aggregation: \<open>agg.alias || `${agg.function}_${agg.field}`\<close>.\<close>

definition outField :: "AggregationOp \<Rightarrow> string" where
  "outField agg =
     (case agg_alias agg of
        None \<Rightarrow> function_name (agg_function agg) @ ''_'' @ agg_field agg
      | Some a \<Rightarrow> if a = [] then function_name (agg_function agg) @ ''_'' @ agg_field agg else a)"

definition aggExpr :: "AggregationOp \<Rightarrow> jsval" where
  "aggExpr agg =
     (if agg_function agg = Count then JObj [(''$sum'', JNum 1)]
      else JObj [(''$'' @ function_name (agg_function agg), JStr (''$'' @ agg_field agg))])"

text \<open>The loop over \<open>query.aggregations\<close> that assigns into the group stage.\<close>

fun addAggregations :: "AggregationOp list \<Rightarrow> (string \<times> jsval) list \<Rightarrow> (string \<times> jsval) list" where
  "addAggregations [] groupStage = groupStage"
| "addAggregations (agg # aggs) groupStage =
     addAggregations aggs (obj_set groupStage (outField agg) (aggExpr agg))"

definition sortDirection :: "Direction \<Rightarrow> jsval" where
  "sortDirection d = (if d = Asc then JNum 1 else JNum (- 1))"

definition Mongo_buildAggregatePipeline :: "QueryAST \<Rightarrow> jsval \<Rightarrow> jsval list" where
  "Mongo_buildAggregatePipeline query flt =
     (let pipeline0 = (if 0 < length (Object_keys flt) then [JObj [(''$match'', flt)]] else []);
          groupStage0 = [(''_id'', JNull)];
          groupStage1 =
            (case q_groupBy query of
               None \<Rightarrow> groupStage0
             | Some gb \<Rightarrow>
                 if 0 < length gb then
                   (if length gb = 1 then obj_set groupStage0 ''_id'' (JStr (''$'' @ gb ! 0))
                    else obj_set groupStage0 ''_id'' (JObj (groupIdFields gb [])))
                 else groupStage0);
          groupStage =
            (case q_aggregations query of
               None \<Rightarrow> groupStage1
             | Some aggs \<Rightarrow> addAggregations aggs groupStage1);
          pipeline1 = pipeline0 @ [JObj [(''$group'', JObj groupStage)]];
          pipeline2 =
            (case q_orderBy query of
               None \<Rightarrow> pipeline1
             | Some ob \<Rightarrow>
                 (let mappedField =
                        (case q_groupBy query of
                           None \<Rightarrow> ob_field ob
                         | Some gb \<Rightarrow>
                             if ob_field ob \<in> set gb then
                               (if length gb = 1 then ''_id'' else ''_id.'' @ ob_field ob)
                             else ob_field ob)
                  in pipeline1 @ [JObj [(''$sort'', JObj [(mappedField, sortDirection (ob_direction ob))])]]));
          pipeline3 =
            (case q_offset query of
               None \<Rightarrow> pipeline2
             | Some n \<Rightarrow> pipeline2 @ [JObj [(''$skip'', JNum n)]]);
          pipeline4 =
            (case q_limit query of
               None \<Rightarrow> pipeline3
             | Some n \<Rightarrow> pipeline3 @ [JObj [(''$limit'', JNum n)]])
      in pipeline4)"

definition Mongo_plan :: "QueryAST \<Rightarrow> QueryPlan" where
  "Mongo_plan query =
     (let flt = Mongo_buildFilter query
      in if q_type query = Select then
           (if q_aggregations query \<noteq> None \<or> q_groupBy query \<noteq> None then
              (emptyPlan MongoPipeline)\<lparr>p_pipeline := Some (Mongo_buildAggregatePipeline query flt)\<rparr>
            else
              (let options0 = [];
                   options1 = (case q_select query of
                                 None \<Rightarrow> options0
                               | Some fs \<Rightarrow> obj_set options0 ''projection''
                                   (JObj (Object_fromEntries (map (\<lambda>f. (f, JNum 1)) fs))));
                   options2 = (case q_limit query of
                                 None \<Rightarrow> options1
                               | Some n \<Rightarrow> obj_set options1 ''limit'' (JNum n));
                   options3 = (case q_offset query of
                                 None \<Rightarrow> options2
                               | Some n \<Rightarrow> obj_set options2 ''skip'' (JNum n));
                   options4 = (case q_orderBy query of
                                 None \<Rightarrow> options3
                               | Some ob \<Rightarrow> obj_set options3 ''sort''
                                   (JObj [(ob_field ob, sortDirection (ob_direction ob))]))
               in (emptyPlan MongoQuery)\<lparr>p_filter := Some flt, p_options := Some (JObj options4)\<rparr>))
         else (emptyPlan MongoQuery)\<lparr>p_filter := Some flt, p_data := q_data query\<rparr>)"

section \<open>Migration planning and sync\<close>

text \<open>
  A logical schema (core/schema.ts): a field is declared by a type name or by an object
  holding the type name. The planners read only the type tag. \<open>m_fields\<close> is what
  \<open>Object.entries(model.fields)\<close> returns: the own entries in enumeration order.
\<close>

datatype FieldDef =
    TypeName string
  | TypeObject (fd_type: string) (fd_default: "jsval option") (fd_required: "bool option")

record ModelSchema =
  m_name :: string
  m_table :: string
  m_fields :: "(string \<times> FieldDef) list"

record 'op MigrationPlan =
  mp_type :: string
  mp_operations :: "'op list"
  mp_logs :: "string list"

definition fieldTypeOf :: "FieldDef \<Rightarrow> string" where
  "fieldTypeOf d = (case d of TypeName s \<Rightarrow> s | TypeObject t _ _ \<Rightarrow> t)"

definition typeMap :: "string \<Rightarrow> string option" where
  "typeMap = map_of
     [(''string'', ''VARCHAR(255)''),
      (''number'', ''FLOAT''),
      (''boolean'', ''BOOLEAN''),
      (''date'', ''TIMESTAMP''),
      (''object'', ''JSONB''),
      (''array'', ''JSONB'')]"

text \<open>
  \<open>typeMap[fieldType] || "TEXT"\<close>. \<open>typeMap\<close> is a plain object, so the lookup of a
  name that is not one of its six keys still finds the members it inherits from
  \<open>Object.prototype\<close> (\<open>constructor\<close>, \<open>toString\<close>, ...), all of them truthy; the statement
  then holds the text such a member is rendered to. That text is the runtime's: it is the
  argument \<open>inherited\<close>, which gives \<open>None\<close> for a name that is no such member.
\<close>

definition pgType :: "(string \<Rightarrow> string option) \<Rightarrow> FieldDef \<Rightarrow> string" where
  "pgType inherited d =
     (case typeMap (fieldTypeOf d) of
        Some t \<Rightarrow> t
      | None \<Rightarrow> (case inherited (fieldTypeOf d) of Some t \<Rightarrow> t | None \<Rightarrow> ''TEXT''))"

definition dq :: string where
  "dq = [CHR 0x22]"

text \<open>The loop that collects the column list of a \<open>CREATE TABLE\<close>.\<close>

fun createColumns ::
  "(string \<Rightarrow> string option) \<Rightarrow> (string \<times> FieldDef) list \<Rightarrow> string list \<Rightarrow> string list" where
  "createColumns inherited [] columns = columns"
| "createColumns inherited ((field, d) # rest) columns =
     (if field = ''id'' then createColumns inherited rest columns
      else createColumns inherited rest (columns @ [dq @ field @ dq @ '' '' @ pgType inherited d]))"

text \<open>The loop that adds the columns missing from an existing table.\<close>

fun addColumns ::
  "(string \<Rightarrow> string option) \<Rightarrow> string \<Rightarrow> string list \<Rightarrow> (string \<times> FieldDef) list \<Rightarrow> string list \<times> string list
     \<Rightarrow> string list \<times> string list" where
  "addColumns inherited tbl existingColumns [] (operations, logs) = (operations, logs)"
| "addColumns inherited tbl existingColumns ((field, d) # rest) (operations, logs) =
     (if field = ''id'' \<or> field \<in> set existingColumns
      then addColumns inherited tbl existingColumns rest (operations, logs)
      else addColumns inherited tbl existingColumns rest
             (operations @ [''ALTER TABLE '' @ dq @ tbl @ dq @ '' ADD COLUMN '' @ dq @ field @ dq
                            @ '' '' @ pgType inherited d @ '';''],
              logs @ [''[Postgres] Planner appended column: '' @ field @ '' on '' @ tbl]))"

text \<open>
  The planner queries the live catalogue for each model: whether the table exists and, if
  so, its column names. The catalogue is the argument \<open>catalogue\<close>, a table name mapped
  to the table's columns.
\<close>

fun Postgres_planModels ::
  "(string \<Rightarrow> string option) \<Rightarrow> (string \<Rightarrow> string list option) \<Rightarrow> ModelSchema list \<Rightarrow> string list \<times> string list
     \<Rightarrow> string list \<times> string list" where
  "Postgres_planModels inherited catalogue [] (operations, logs) = (operations, logs)"
| "Postgres_planModels inherited catalogue (model # models) (operations, logs) =
     (case catalogue (m_table model) of
        None \<Rightarrow>
          (let columns = createColumns inherited (m_fields model) [''id SERIAL PRIMARY KEY'']
           in Postgres_planModels inherited catalogue models
                (operations @ [''CREATE TABLE '' @ dq @ m_table model @ dq @ '' (''
                               @ join '', '' columns @ '');''],
                 logs @ [''[Postgres] Planner created table: '' @ m_table model]))
      | Some existingColumns \<Rightarrow>
          Postgres_planModels inherited catalogue models
            (addColumns inherited (m_table model) existingColumns (m_fields model) (operations, logs)))"

definition Postgres_planSync ::
  "(string \<Rightarrow> string option) \<Rightarrow> (string \<Rightarrow> string list option) \<Rightarrow> ModelSchema list \<Rightarrow> string MigrationPlan" where
  "Postgres_planSync inherited catalogue models =
     (let (operations, logs) = Postgres_planModels inherited catalogue models ([], [])
      in \<lparr>mp_type = ''sql'', mp_operations = operations, mp_logs = logs\<rparr>)"

text \<open>
  The database client is external. \<open>run db op\<close> is the outcome of sending \<open>op\<close> in
  database state \<open>db\<close>: the error thrown, if any, and the state afterwards.
  \<open>PostgresAdapter.sync\<close> awaits each operation with no handler around it.
\<close>

fun Postgres_applyOperations ::
  "('db \<Rightarrow> string \<Rightarrow> error option \<times> 'db) \<Rightarrow> string list \<Rightarrow> 'db \<Rightarrow> error option \<times> 'db" where
  "Postgres_applyOperations run [] db = (None, db)"
| "Postgres_applyOperations run (op # ops) db =
     (case run db op of
        (Some err, db1) \<Rightarrow> (Some err, db1)
      | (None, db1) \<Rightarrow> Postgres_applyOperations run ops db1)"

definition Postgres_sync ::
  "(string \<Rightarrow> string option) \<Rightarrow> ('db \<Rightarrow> string \<Rightarrow> string list option) \<Rightarrow> ('db \<Rightarrow> string \<Rightarrow> error option \<times> 'db)
     \<Rightarrow> ModelSchema list \<Rightarrow> 'db \<Rightarrow> error option \<times> 'db" where
  "Postgres_sync inherited catalogue run models db =
     (let plan = Postgres_planSync inherited (catalogue db) models
      in Postgres_applyOperations run (mp_operations plan) db)"

text \<open>
  The document planner and its sync. The list of required fields stays empty in the source
  (the line that would fill it is commented out), so the validator never gets a
  \<open>required\<close> entry.
\<close>

definition bsonType :: "string \<Rightarrow> jsval" where
  "bsonType fieldType =
     (let b0 = JStr ''string'';
          b1 = (if fieldType = ''number''
                then JArr [JStr ''double'', JStr ''int'', JStr ''long'', JStr ''decimal''] else b0);
          b2 = (if fieldType = ''boolean'' then JStr ''bool'' else b1);
          b3 = (if fieldType = ''date'' then JArr [JStr ''date'', JStr ''string''] else b2);
          b4 = (if fieldType = ''object'' then JStr ''object'' else b3);
          b5 = (if fieldType = ''array'' then JStr ''array'' else b4)
      in b5)"

fun validatorProperties :: "(string \<times> FieldDef) list \<Rightarrow> (string \<times> jsval) list \<Rightarrow> (string \<times> jsval) list" where
  "validatorProperties [] properties = properties"
| "validatorProperties ((field, d) # rest) properties =
     (if field = ''id'' then validatorProperties rest properties
      else validatorProperties rest
             (obj_set properties field (JObj [(''bsonType'', bsonType (fieldTypeOf d))])))"

fun Mongo_planModels ::
  "string list \<Rightarrow> ModelSchema list \<Rightarrow> jsval list \<times> string list \<Rightarrow> jsval list \<times> string list" where
  "Mongo_planModels existingNames [] (operations, logs) = (operations, logs)"
| "Mongo_planModels existingNames (model # models) (operations, logs) =
     (let (operations1, logs1) =
            (if m_table model \<notin> set existingNames
             then (operations @ [JObj [(''create'', JStr (m_table model))]],
                   logs @ [''[Mongo] Planner scheduled collection creation: '' @ m_table model])
             else (operations, logs));
          properties = validatorProperties (m_fields model) [];
          validatorConfig = [(''bsonType'', JStr ''object''), (''properties'', JObj properties)]
      in Mongo_planModels existingNames models
           (operations1 @ [JObj [(''collMod'', JStr (m_table model)),
                                 (''validator'', JObj [(''$jsonSchema'', JObj validatorConfig)])]],
            logs1 @ [''[Mongo] Planner mapped $jsonSchema validations for collection: ''
                     @ m_table model]))"

definition Mongo_planSync :: "string list \<Rightarrow> ModelSchema list \<Rightarrow> jsval MigrationPlan" where
  "Mongo_planSync existingNames models =
     (let (operations, logs) = Mongo_planModels existingNames models ([], [])
      in \<lparr>mp_type = ''mongo'', mp_operations = operations, mp_logs = logs\<rparr>)"

text \<open>
  \<open>MongoAdapter.sync\<close> wraps each command in \<open>try\<close> with an empty \<open>catch\<close>: whatever the
  command throws is dropped and the loop goes on.
\<close>

fun Mongo_applyOperations ::
  "('db \<Rightarrow> jsval \<Rightarrow> error option \<times> 'db) \<Rightarrow> jsval list \<Rightarrow> 'db \<Rightarrow> error option \<times> 'db" where
  "Mongo_applyOperations command [] db = (None, db)"
| "Mongo_applyOperations command (op # ops) db =
     (case command db op of
        (Some err, db1) \<Rightarrow> Mongo_applyOperations command ops db1
      | (None, db1) \<Rightarrow> Mongo_applyOperations command ops db1)"

definition Mongo_sync ::
  "('db \<Rightarrow> string list) \<Rightarrow> ('db \<Rightarrow> jsval \<Rightarrow> error option \<times> 'db)
     \<Rightarrow> ModelSchema list \<Rightarrow> 'db \<Rightarrow> error option \<times> 'db" where
  "Mongo_sync listCollections command models db =
     (let plan = Mongo_planSync (listCollections db) models
      in Mongo_applyOperations command (mp_operations plan) db)"

section \<open>The router (synqra.ts)\<close>

text \<open>
  An adapter as the router sees it. \<open>a_plan\<close> is the adapter's compiler, and \<open>a_execute\<close>
  stands for the backend round trip, which is external: it returns rows or throws.
\<close>

record 'r Adapter =
  a_name :: string
  a_capabilities :: AdapterCapabilities
  a_plan :: "QueryAST \<Rightarrow> error + QueryPlan"
  a_execute :: "QueryAST \<Rightarrow> error + 'r"

definition getAdapterByIntent :: "(string \<Rightarrow> 'r Adapter option) \<Rightarrow> string option \<Rightarrow> 'r Adapter option" where
  "getAdapterByIntent adapters intent =
     (if intent = Some ''aggregate'' \<and> adapters ''analytics'' \<noteq> None then adapters ''analytics''
      else if intent = Some ''read'' \<and> adapters ''replica'' \<noteq> None then adapters ''replica''
      else adapters ''primary'')"

text \<open>
  \<open>SynqraQuery.execute\<close>. The calls it makes are recorded in order: the adapter's
  \<open>plan\<close>, \<open>validateQuery\<close>, the adapter's \<open>execute\<close>, and the notification of the
  observers. A call that throws ends the execution with that error.
\<close>

datatype step = Planned | Validated | Executed | Observed

definition SynqraQuery_execute ::
  "(string \<Rightarrow> 'r Adapter option) \<Rightarrow> QueryAST \<Rightarrow> step list \<times> (error + 'r)" where
  "SynqraQuery_execute adapters query =
     (case getAdapterByIntent adapters (q_intent query) of
        None \<Rightarrow> ([], Inl TypeError)
      | Some adapter \<Rightarrow>
          (case a_plan adapter query of
             Inl e \<Rightarrow> ([Planned], Inl e)
           | Inr plan \<Rightarrow>
               (case validateQuery query (a_capabilities adapter) of
                  Inl e \<Rightarrow> ([Planned, Validated], Inl e)
                | Inr ok \<Rightarrow>
                    (case a_execute adapter query of
                       Inl e \<Rightarrow> ([Planned, Validated, Executed], Inl e)
                     | Inr result \<Rightarrow> ([Planned, Validated, Executed, Observed], Inr result)))))"

section \<open>The AST builder (query/builder.ts)\<close>

record QueryBuilder =
  b_table :: string
  b_mode :: QueryType
  b_conditions :: "Condition list"
  b_logicalGroups :: "LogicalGroup list"
  b_groupByFields :: "string list option"
  b_aggregations :: "AggregationOp list option"
  b_data :: "(string \<times> jsval) list option"
  b_limitValue :: "int option"
  b_offsetValue :: "int option"
  b_orderByValue :: "OrderBy option"
  b_selectFields :: "string list option"

definition QueryBuilder_new :: "string \<Rightarrow> QueryBuilder" where
  "QueryBuilder_new tbl =
     \<lparr>b_table = tbl, b_mode = Select, b_conditions = [], b_logicalGroups = [],
      b_groupByFields = None, b_aggregations = None, b_data = None, b_limitValue = None,
      b_offsetValue = None, b_orderByValue = None, b_selectFields = None\<rparr>"

definition builder_where :: "string \<Rightarrow> Operator \<Rightarrow> jsval \<Rightarrow> QueryBuilder \<Rightarrow> QueryBuilder" where
  "builder_where f opr v b =
     b\<lparr>b_conditions := b_conditions b @ [\<lparr>c_field = f, c_operator = opr, c_value = v\<rparr>]\<rparr>"

definition builder_or :: "LogicalCondition list \<Rightarrow> QueryBuilder \<Rightarrow> QueryBuilder" where
  "builder_or cs b = b\<lparr>b_logicalGroups := b_logicalGroups b @ [LogicalGroup OR cs]\<rparr>"

definition builder_and :: "LogicalCondition list \<Rightarrow> QueryBuilder \<Rightarrow> QueryBuilder" where
  "builder_and cs b = b\<lparr>b_logicalGroups := b_logicalGroups b @ [LogicalGroup AND cs]\<rparr>"

definition builder_limit :: "int \<Rightarrow> QueryBuilder \<Rightarrow> QueryBuilder" where
  "builder_limit n b = b\<lparr>b_limitValue := Some n\<rparr>"

definition builder_offset :: "int \<Rightarrow> QueryBuilder \<Rightarrow> QueryBuilder" where
  "builder_offset n b = b\<lparr>b_offsetValue := Some n\<rparr>"

definition builder_paginate :: "int \<Rightarrow> int \<Rightarrow> QueryBuilder \<Rightarrow> QueryBuilder" where
  "builder_paginate page pageSize b =
     b\<lparr>b_limitValue := Some pageSize, b_offsetValue := Some ((page - 1) * pageSize)\<rparr>"

definition builder_orderBy :: "string \<Rightarrow> Direction \<Rightarrow> QueryBuilder \<Rightarrow> QueryBuilder" where
  "builder_orderBy f d b = b\<lparr>b_orderByValue := Some \<lparr>ob_field = f, ob_direction = d\<rparr>\<rparr>"

definition builder_select :: "string list \<Rightarrow> QueryBuilder \<Rightarrow> QueryBuilder" where
  "builder_select fs b = b\<lparr>b_selectFields := Some fs\<rparr>"

definition builder_insert :: "(string \<times> jsval) list \<Rightarrow> QueryBuilder \<Rightarrow> QueryBuilder" where
  "builder_insert d b = b\<lparr>b_mode := Insert, b_data := Some d\<rparr>"

definition builder_update :: "(string \<times> jsval) list \<Rightarrow> QueryBuilder \<Rightarrow> QueryBuilder" where
  "builder_update d b = b\<lparr>b_mode := Update, b_data := Some d\<rparr>"

definition builder_delete :: "QueryBuilder \<Rightarrow> QueryBuilder" where
  "builder_delete b = b\<lparr>b_mode := Delete\<rparr>"

definition builder_groupBy :: "string list \<Rightarrow> QueryBuilder \<Rightarrow> QueryBuilder" where
  "builder_groupBy fs b = b\<lparr>b_groupByFields := Some fs\<rparr>"

definition builder_aggregate ::
  "AggFunction \<Rightarrow> string \<Rightarrow> string option \<Rightarrow> QueryBuilder \<Rightarrow> QueryBuilder" where
  "builder_aggregate func f alias b =
     (let aggs = (case b_aggregations b of None \<Rightarrow> [] | Some as \<Rightarrow> as)
      in b\<lparr>b_aggregations := Some (aggs @ [\<lparr>agg_function = func, agg_field = f, agg_alias = alias\<rparr>])\<rparr>)"

definition builder_build :: "QueryBuilder \<Rightarrow> QueryAST" where
  "builder_build b =
     \<lparr>q_type = b_mode b,
      q_table = b_table b,
      q_conditions = (if length (b_conditions b) \<noteq> 0 then Some (b_conditions b) else None),
      q_logical = (if length (b_logicalGroups b) \<noteq> 0 then Some (b_logicalGroups b) else None),
      q_groupBy = b_groupByFields b,
      q_aggregations = (case b_aggregations b of
                          None \<Rightarrow> None
                        | Some as \<Rightarrow> if length as \<noteq> 0 then Some as else None),
      q_data = b_data b,
      q_limit = b_limitValue b,
      q_offset = b_offsetValue b,
      q_orderBy = b_orderByValue b,
      q_select = b_selectFields b,
      q_intent = None\<rparr>"

text \<open>A sequence of builder calls, applied from left to right to a fresh builder.\<close>

datatype BuilderCall =
    CallWhere string Operator jsval
  | CallOr "LogicalCondition list"
  | CallAnd "LogicalCondition list"
  | CallLimit int
  | CallOffset int
  | CallPaginate int int
  | CallOrderBy string Direction
  | CallSelect "string list"
  | CallInsert "(string \<times> jsval) list"
  | CallUpdate "(string \<times> jsval) list"
  | CallDelete
  | CallGroupBy "string list"
  | CallAggregate AggFunction string "string option"

fun applyCall :: "QueryBuilder \<Rightarrow> BuilderCall \<Rightarrow> QueryBuilder" where
  "applyCall b (CallWhere f opr v) = builder_where f opr v b"
| "applyCall b (CallOr cs) = builder_or cs b"
| "applyCall b (CallAnd cs) = builder_and cs b"
| "applyCall b (CallLimit n) = builder_limit n b"
| "applyCall b (CallOffset n) = builder_offset n b"
| "applyCall b (CallPaginate p s) = builder_paginate p s b"
| "applyCall b (CallOrderBy f d) = builder_orderBy f d b"
| "applyCall b (CallSelect fs) = builder_select fs b"
| "applyCall b (CallInsert d) = builder_insert d b"
| "applyCall b (CallUpdate d) = builder_update d b"
| "applyCall b CallDelete = builder_delete b"
| "applyCall b (CallGroupBy fs) = builder_groupBy fs b"
| "applyCall b (CallAggregate func f alias) = builder_aggregate func f alias b"

definition buildFrom :: "string \<Rightarrow> BuilderCall list \<Rightarrow> QueryAST" where
  "buildFrom tbl calls = builder_build (foldl applyCall (QueryBuilder_new tbl) calls)"

fun carriesData :: "BuilderCall \<Rightarrow> bool" where
  "carriesData (CallInsert d) = True"
| "carriesData (CallUpdate d) = True"
| "carriesData _ = False"

section \<open>Notions used to state the properties\<close>

subsection \<open>Literals and placeholders of a WHERE clause\<close>

text \<open>
  The literal values of a condition, in the order they are bound: the elements of the array
  for \<open>in\<close> over an array, the value itself otherwise. Those of a query: flat conditions
  first, then the logical groups, depth first and left to right.
\<close>

definition cond_literals :: "Condition \<Rightarrow> jsval list" where
  "cond_literals c =
     (case (c_operator c, c_value c) of (In, JArr xs) \<Rightarrow> xs | _ \<Rightarrow> [c_value c])"

fun group_literals :: "LogicalGroup \<Rightarrow> jsval list"
  and children_literals :: "LogicalCondition list \<Rightarrow> jsval list"
where
  "group_literals (LogicalGroup t cs) = children_literals cs"
| "children_literals [] = []"
| "children_literals (Flat c # cs) = cond_literals c @ children_literals cs"
| "children_literals (Nested g # cs) = group_literals g @ children_literals cs"

definition where_literals :: "QueryAST \<Rightarrow> jsval list" where
  "where_literals query =
     concat (map cond_literals (case q_conditions query of None \<Rightarrow> [] | Some cs \<Rightarrow> cs))
     @ concat (map group_literals (case q_logical query of None \<Rightarrow> [] | Some gs \<Rightarrow> gs))"







text \<open>
  The placeholders of a statement text are read back from the text itself: every \<open>$\<close>
  followed by decimal digits, from left to right, as the number the digits spell.
\<close>

function scan_placeholders :: "string \<Rightarrow> nat list" where
  "scan_placeholders [] = []"
| "scan_placeholders (c # cs) =
     (if c = CHR ''$'' \<and> takeWhile is_digit cs \<noteq> []
      then read_nat (takeWhile is_digit cs) # scan_placeholders (dropWhile is_digit cs)
      else scan_placeholders cs)"
  by pat_completeness auto
termination
  by (relation "measure length") (auto simp: le_imp_less_Suc length_dropWhile_le)



text \<open>
  Auxiliary notions for the proofs: a text does not start with a digit; a text scans to a
  list of placeholders whatever follows it (as long as that does not start with a digit); a
  list of clause texts scans to consecutive runs of placeholders.
\<close>

definition nd :: "string \<Rightarrow> bool" where
  "nd b = (case b of [] \<Rightarrow> True | c # _ \<Rightarrow> \<not> is_digit c)"

definition scans_to :: "string \<Rightarrow> nat list \<Rightarrow> bool" where
  "scans_to t ps = (\<forall>b. nd b \<longrightarrow> scan_placeholders (t @ b) = ps @ scan_placeholders b)"

fun scans_chain :: "string list \<Rightarrow> nat list \<Rightarrow> nat \<Rightarrow> bool" where
  "scans_chain [] [] a = True"
| "scans_chain (t # ts) (n # ns) a =
     (scans_to t (map Suc [a ..< a + n]) \<and> scans_chain ts ns (a + n))"
| "scans_chain _ _ _ = False"

subsection \<open>Reading an \<open>$in\<close> filter\<close>

text \<open>
  Matching documents against a filter is done by the document store, outside this code.
  For the filter \<open>{f: {$in: xs}}\<close> the store's reading is: a document matches when its
  value at \<open>f\<close> agrees with some element of \<open>xs\<close>. What "agrees" means for two values is
  the store's business and stays a parameter.
\<close>

definition matches_in :: "(jsval option \<Rightarrow> jsval \<Rightarrow> bool) \<Rightarrow> (string \<times> jsval) list \<Rightarrow> jsval \<Rightarrow> bool" where
  "matches_in agrees doc flt =
     (case flt of
        JObj [(f, JObj [(k, JArr xs)])] \<Rightarrow> k = ''$in'' \<and> (\<exists>x \<in> set xs. agrees (map_of doc f) x)
      | _ \<Rightarrow> False)"

subsection \<open>The shape of a SELECT statement\<close>

text \<open>
  The clauses that follow \<open>FROM <table>\<close>, and a statement with a given column list
  (\<open>*\<close> when the list is empty).
\<close>

definition select_tail :: "QueryAST \<Rightarrow> string" where
  "select_tail query =
     fst (Postgres_buildWhere query [])
     @ (case q_groupBy query of None \<Rightarrow> [] | Some gb \<Rightarrow> '' GROUP BY '' @ join '', '' gb)
     @ (case q_orderBy query of
          None \<Rightarrow> []
        | Some ob \<Rightarrow> '' ORDER BY '' @ ob_field ob @ '' '' @ toUpperCase (direction_name (ob_direction ob)))
     @ (case q_limit query of None \<Rightarrow> [] | Some n \<Rightarrow> '' LIMIT '' @ show_int n)
     @ (case q_offset query of None \<Rightarrow> [] | Some n \<Rightarrow> '' OFFSET '' @ show_int n)"

definition select_statement :: "string list \<Rightarrow> QueryAST \<Rightarrow> string" where
  "select_statement cols query =
     ''SELECT '' @ (if cols = [] then ''*'' else join '', '' cols)
     @ '' FROM '' @ q_table query @ select_tail query"

definition projection_items :: "QueryAST \<Rightarrow> string list" where
  "projection_items query = (case q_select query of None \<Rightarrow> [] | Some fs \<Rightarrow> fs)"

definition aggregation_items :: "QueryAST \<Rightarrow> string list" where
  "aggregation_items query =
     (case q_aggregations query of None \<Rightarrow> [] | Some aggs \<Rightarrow> map aggStr aggs)"

subsection \<open>The shape of an aggregation pipeline\<close>

text \<open>
  The pipeline as the specification describes it: the grouping key, one entry per
  aggregation under its output name, and the stages in their order.
\<close>

definition group_id :: "string list option \<Rightarrow> jsval" where
  "group_id gb =
     (case gb of
        None \<Rightarrow> JNull
      | Some [] \<Rightarrow> JNull
      | Some [f] \<Rightarrow> JStr (''$'' @ f)
      | Some fs \<Rightarrow> JObj (map (\<lambda>f. (f, JStr (''$'' @ f))) fs))"

text \<open>
  The output name of an aggregation as the specification gives it: the alias, or
  \<open><function>_<field>\<close> when no alias is set (an empty alias counts as not set).
\<close>

definition described_name :: "AggregationOp \<Rightarrow> string" where
  "described_name agg =
     (case agg_alias agg of
        Some (c # cs) \<Rightarrow> c # cs
      | _ \<Rightarrow> function_name (agg_function agg) @ ''_'' @ agg_field agg)"

definition group_entry :: "AggregationOp \<Rightarrow> string \<times> jsval" where
  "group_entry agg =
     (described_name agg,
      if agg_function agg = Count then JObj [(''$sum'', JNum 1)]
      else JObj [(''$'' @ function_name (agg_function agg), JStr (''$'' @ agg_field agg))])"

definition sort_key :: "string list option \<Rightarrow> string \<Rightarrow> string" where
  "sort_key gb f =
     (case gb of
        None \<Rightarrow> f
      | Some fs \<Rightarrow> if f \<in> set fs then (if length fs = 1 then ''_id'' else ''_id.'' @ f) else f)"

definition described_pipeline :: "QueryAST \<Rightarrow> jsval list" where
  "described_pipeline query =
     (if Mongo_buildFilter query = JObj [] then []
      else [JObj [(''$match'', Mongo_buildFilter query)]])
     @ [JObj [(''$group'',
               JObj ((''_id'', group_id (q_groupBy query))
                     # map group_entry (case q_aggregations query of None \<Rightarrow> [] | Some aggs \<Rightarrow> aggs)))]]
     @ (case q_orderBy query of
          None \<Rightarrow> []
        | Some ob \<Rightarrow>
            [JObj [(''$sort'', JObj [(sort_key (q_groupBy query) (ob_field ob),
                                      JNum (if ob_direction ob = Asc then 1 else - 1))])]])
     @ (case q_offset query of None \<Rightarrow> [] | Some n \<Rightarrow> [JObj [(''$skip'', JNum n)]])
     @ (case q_limit query of None \<Rightarrow> [] | Some n \<Rightarrow> [JObj [(''$limit'', JNum n)]])"

definition output_names :: "QueryAST \<Rightarrow> string list" where
  "output_names query =
     map described_name (case q_aggregations query of None \<Rightarrow> [] | Some aggs \<Rightarrow> aggs)"

definition group_fields :: "QueryAST \<Rightarrow> string list" where
  "group_fields query = (case q_groupBy query of None \<Rightarrow> [] | Some gb \<Rightarrow> gb)"

text \<open>
  Keys that an assignment adds at the end of an object: any name but \<open>__proto__\<close> and
  the canonical array indices. A list of such keys without repetition fills an object in
  its own order.
\<close>

definition ordinary_key :: "string \<Rightarrow> bool" where
  "ordinary_key k = (k \<noteq> ''__proto__'' \<and> \<not> is_array_index k)"

definition plain_keys :: "string list \<Rightarrow> bool" where
  "plain_keys ks = (distinct ks \<and> list_all ordinary_key ks)"

subsection \<open>The operations of a relational migration plan\<close>

text \<open>
  The type tags a schema may declare (\<open>FieldType\<close> in core/schema.ts), a field declaration
  of that type, and a schema of such declarations with the untyped schema the planner
  receives for it.
\<close>

datatype FieldType = TString | TNumber | TBoolean | TDate | TObject | TArray

fun field_type_name :: "FieldType \<Rightarrow> string" where
  "field_type_name TString = ''string''"
| "field_type_name TNumber = ''number''"
| "field_type_name TBoolean = ''boolean''"
| "field_type_name TDate = ''date''"
| "field_type_name TObject = ''object''"
| "field_type_name TArray = ''array''"

datatype FieldDecl =
    Plain FieldType
  | Detailed FieldType "jsval option" "bool option"

fun decl_type :: "FieldDecl \<Rightarrow> FieldType" where
  "decl_type (Plain t) = t"
| "decl_type (Detailed t d r) = t"

fun decl_def :: "FieldDecl \<Rightarrow> FieldDef" where
  "decl_def (Plain t) = TypeName (field_type_name t)"
| "decl_def (Detailed t d r) = TypeObject (field_type_name t) d r"

record TypedSchema =
  ts_name :: string
  ts_table :: string
  ts_fields :: "(string \<times> FieldDecl) list"

definition schema_of :: "TypedSchema \<Rightarrow> ModelSchema" where
  "schema_of ts =
     \<lparr>m_name = ts_name ts, m_table = ts_table ts,
      m_fields = map (\<lambda>fd. (fst fd, decl_def (snd fd))) (ts_fields ts)\<rparr>"

text \<open>The operations of one schema, for a given table of column types.\<close>

definition column_def :: "(FieldType \<Rightarrow> string) \<Rightarrow> string \<times> FieldDecl \<Rightarrow> string" where
  "column_def types fd = dq @ fst fd @ dq @ '' '' @ types (decl_type (snd fd))"

definition create_statement :: "(FieldType \<Rightarrow> string) \<Rightarrow> TypedSchema \<Rightarrow> string" where
  "create_statement types ts =
     ''CREATE TABLE '' @ dq @ ts_table ts @ dq @ '' (''
     @ join '', '' (''id SERIAL PRIMARY KEY''
                    # map (column_def types) (filter (\<lambda>fd. fst fd \<noteq> ''id'') (ts_fields ts)))
     @ '');''"

definition add_statement :: "(FieldType \<Rightarrow> string) \<Rightarrow> string \<Rightarrow> string \<times> FieldDecl \<Rightarrow> string" where
  "add_statement types tbl fd =
     ''ALTER TABLE '' @ dq @ tbl @ dq @ '' ADD COLUMN '' @ column_def types fd @ '';''"

definition model_operations ::
  "(FieldType \<Rightarrow> string) \<Rightarrow> (string \<Rightarrow> string list option) \<Rightarrow> TypedSchema \<Rightarrow> string list" where
  "model_operations types catalogue ts =
     (case catalogue (ts_table ts) of
        None \<Rightarrow> [create_statement types ts]
      | Some cols \<Rightarrow>
          map (add_statement types (ts_table ts))
            (filter (\<lambda>fd. fst fd \<noteq> ''id'' \<and> fst fd \<notin> set cols) (ts_fields ts)))"

text \<open>The type table as the specification gives it, and the one of the code.\<close>

fun described_types :: "FieldType \<Rightarrow> string" where
  "described_types TString = ''VARCHAR(255)''"
| "described_types TNumber = ''FLOAT''"
| "described_types TBoolean = ''BOOLEAN''"
| "described_types TDate = ''TIMESTAMP''"
| "described_types TObject = ''JSON''"
| "described_types TArray = ''JSON''"

fun code_types :: "FieldType \<Rightarrow> string" where
  "code_types TString = ''VARCHAR(255)''"
| "code_types TNumber = ''FLOAT''"
| "code_types TBoolean = ''BOOLEAN''"
| "code_types TDate = ''TIMESTAMP''"
| "code_types TObject = ''JSONB''"
| "code_types TArray = ''JSONB''"

text \<open>
  A schema set is in sync with a catalogue when every table exists and holds every declared
  field other than \<open>id\<close>.
\<close>

definition in_sync :: "(string \<Rightarrow> string list option) \<Rightarrow> TypedSchema list \<Rightarrow> bool" where
  "in_sync catalogue schemas =
     list_all (\<lambda>ts. case catalogue (ts_table ts) of
                       None \<Rightarrow> False
                     | Some cols \<Rightarrow> list_all (\<lambda>fd. fst fd = ''id'' \<or> fst fd \<in> set cols) (ts_fields ts))
       schemas"

subsection \<open>The statement of each kind of query\<close>











subsection \<open>Order of the router's calls\<close>

text \<open>\<open>precedes a b tr\<close>: no \<open>b\<close> occurs in \<open>tr\<close> before the first \<open>a\<close>.\<close>

fun precedes :: "step \<Rightarrow> step \<Rightarrow> step list \<Rightarrow> bool" where
  "precedes a b [] = True"
| "precedes a b (x # xs) = (if x = a then True else if x = b then False else precedes a b xs)"

subsection \<open>Concrete inputs\<close>

definition blank_query :: "QueryType \<Rightarrow> string \<Rightarrow> QueryAST" where
  "blank_query t tbl =
     \<lparr>q_type = t, q_table = tbl, q_conditions = None, q_logical = None, q_groupBy = None,
      q_aggregations = None, q_data = None, q_limit = None, q_offset = None, q_orderBy = None,
      q_select = None, q_intent = None\<rparr>"


text \<open>
  Table \<open>sales\<close>, \<open>groupBy(["category","year"])\<close>, \<open>sum("amount","total")\<close>, filter
  \<open>status = "paid"\<close>.
\<close>

definition sales_query :: QueryAST where
  "sales_query =
     (blank_query Select ''sales'')
       \<lparr>q_conditions := Some [\<lparr>c_field = ''status'', c_operator = Eq, c_value = JStr ''paid''\<rparr>],
        q_groupBy := Some [''category'', ''year''],
        q_aggregations := Some [\<lparr>agg_function = Sum, agg_field = ''amount'', agg_alias = Some ''total''\<rparr>]\<rparr>"

text \<open>\<open>groupBy(["region"]).count("id", "_id")\<close>: an aggregation whose alias is \<open>_id\<close>.\<close>

definition id_alias_query :: QueryAST where
  "id_alias_query =
     (blank_query Select ''sales'')
       \<lparr>q_groupBy := Some [''region''],
        q_aggregations := Some [\<lparr>agg_function = Count, agg_field = ''id'', agg_alias = Some ''_id''\<rparr>]\<rparr>"

text \<open>\<open>select(["region"]).sum("amount","total")\<close>: a projection and an aggregation.\<close>

definition region_totals_query :: QueryAST where
  "region_totals_query =
     (blank_query Select ''sales'')
       \<lparr>q_select := Some [''region''],
        q_aggregations := Some [\<lparr>agg_function = Sum, agg_field = ''amount'', agg_alias = Some ''total''\<rparr>]\<rparr>"

text \<open>\<open>count("id")\<close> on table \<open>sales\<close>, as the router's \<open>find\<close> sends it.\<close>

definition count_query :: QueryAST where
  "count_query =
     (blank_query Select ''sales'')
       \<lparr>q_aggregations := Some [\<lparr>agg_function = Count, agg_field = ''id'', agg_alias = None\<rparr>],
        q_intent := Some ''read''\<rparr>"


text \<open>
  A schema with a string field and an object field, and one with two scalar fields; the
  second also as the untyped schema the planner receives.
\<close>

definition profile_schema :: TypedSchema where
  "profile_schema =
     \<lparr>ts_name = ''Profile'', ts_table = ''profiles'',
      ts_fields = [(''name'', Plain TString), (''meta'', Plain TObject)]\<rparr>"

definition user_schema :: TypedSchema where
  "user_schema =
     \<lparr>ts_name = ''User'', ts_table = ''users'',
      ts_fields = [(''name'', Plain TString), (''age'', Plain TNumber)]\<rparr>"

definition user_model :: ModelSchema where
  "user_model =
     \<lparr>m_name = ''User'', m_table = ''users'',
      m_fields = [(''name'', TypeName ''string''), (''age'', TypeName ''number'')]\<rparr>"

text \<open>
  A relational adapter with the capabilities declared in the source, whose backend returns
  no rows, and the same adapter with aggregation switched off (as the repository's test
  does).
\<close>

definition postgres_capabilities :: AdapterCapabilities where
  "postgres_capabilities =
     \<lparr>supportsTransactions = True, supportsAggregation = True, supportsJoins = True,
      supportsSchemaSync = True\<rparr>"

definition postgres_adapter :: "jsval list Adapter" where
  "postgres_adapter =
     \<lparr>a_name = ''primary-pg'', a_capabilities = postgres_capabilities,
      a_plan = Postgres_plan, a_execute = (\<lambda>query. Inr [])\<rparr>"

definition restricted_adapter :: "jsval list Adapter" where
  "restricted_adapter =
     postgres_adapter\<lparr>a_capabilities := postgres_capabilities\<lparr>supportsAggregation := False\<rparr>\<rparr>"

definition only_primary :: "'r Adapter \<Rightarrow> string \<Rightarrow> 'r Adapter option" where
  "only_primary adapter name = (if name = ''primary'' then Some adapter else None)"

text \<open>
  Two backends for \<open>sync\<close>, whose state is the list of operations applied so far. The
  first rejects every statement that adds the column \<open>name\<close>, as a database does when a
  concurrent run has added it already; the second rejects every command.
\<close>

definition name_exists_run :: "string list \<Rightarrow> string \<Rightarrow> error option \<times> string list" where
  "name_exists_run db opn =
     (if opn = ''ALTER TABLE '' @ dq @ ''users'' @ dq @ '' ADD COLUMN '' @ dq @ ''name'' @ dq
                @ '' VARCHAR(255);''
      then (Some (BackendError ''column already exists''), db)
      else (None, db @ [opn]))"

definition unauthorized_command :: "jsval list \<Rightarrow> jsval \<Rightarrow> error option \<times> jsval list" where
  "unauthorized_command db cmd = (Some (BackendError ''not authorized''), db)"

section \<open>Lemmas\<close>

subsection \<open>Decimal rendering and the placeholder scanner\<close>

lemma digits_nonempty: "digits n \<noteq> []"
  by (subst digits.simps) simp

lemma digits_lt10: "d \<in> set (digits n) \<Longrightarrow> d < 10"
proof (induction n arbitrary: d rule: digits.induct)
  case (1 n)
  show ?case
  proof (cases "n < 10")
    case True
    with "1.prems" show ?thesis by (subst (asm) digits.simps) simp
  next
    case False
    with "1.prems" have "d \<in> set (digits (n div 10)) \<or> d = n mod 10"
      by (subst (asm) digits.simps) auto
    with "1.IH" False show ?thesis by auto
  qed
qed

lemma foldl_digits: "foldl (\<lambda>a d. 10 * a + d) 0 (digits n) = n"
proof (induction n rule: digits.induct)
  case (1 n)
  show ?case
  proof (cases "n < 10")
    case True
    then show ?thesis by (subst digits.simps) simp
  next
    case False
    with "1.IH" show ?thesis by (subst digits.simps) simp
  qed
qed

lemma is_digit_digit_char: "d < 10 \<Longrightarrow> is_digit (digit_char d)"
  by (simp add: is_digit_def digit_char_def)

lemma digit_val_digit_char: "d < 10 \<Longrightarrow> digit_val (digit_char d) = d"
  by (simp add: digit_val_def digit_char_def)

lemma read_nat_map: "\<forall>d \<in> set ds. d < 10 \<Longrightarrow>
  foldl (\<lambda>a c. 10 * a + digit_val c) k (map digit_char ds) = foldl (\<lambda>a d. 10 * a + d) k ds"
  by (induction ds arbitrary: k) (simp_all add: digit_val_digit_char)

lemma read_show_nat: "read_nat (show_nat n) = n"
  unfolding read_nat_def show_nat_def
  using read_nat_map[of "digits n" 0] digits_lt10 foldl_digits by simp

lemma show_nat_digits: "c \<in> set (show_nat n) \<Longrightarrow> is_digit c"
  unfolding show_nat_def using digits_lt10 is_digit_digit_char by auto

lemma show_nat_nonempty: "show_nat n \<noteq> []"
  by (simp add: show_nat_def digits_nonempty)

lemma placeholders_dollar_free:
  "CHR ''$'' \<notin> set a \<Longrightarrow> scan_placeholders (a @ b) = scan_placeholders b"
  by (induction a) auto

lemma takeWhile_show: "nd b \<Longrightarrow> takeWhile is_digit (show_nat n @ b) = show_nat n"
  by (cases b) (auto simp: nd_def takeWhile_append show_nat_digits takeWhile_eq_all_conv[THEN iffD2])

lemma dropWhile_show: "nd b \<Longrightarrow> dropWhile is_digit (show_nat n @ b) = b"
  by (cases b) (auto simp: nd_def dropWhile_append show_nat_digits dropWhile_eq_Nil_conv[THEN iffD2])

lemma scans_to_placeholder: "scans_to (CHR ''$'' # show_nat n) [n]"
  by (simp add: scans_to_def takeWhile_show dropWhile_show show_nat_nonempty read_show_nat)

lemma scans_to_free: "CHR ''$'' \<notin> set t \<Longrightarrow> scans_to t []"
  by (simp add: scans_to_def placeholders_dollar_free)

lemma scans_to_prefix: "CHR ''$'' \<notin> set a \<Longrightarrow> scans_to t ps \<Longrightarrow> scans_to (a @ t) ps"
  by (simp add: scans_to_def placeholders_dollar_free)

lemma nd_append: "nd t \<Longrightarrow> t \<noteq> [] \<or> nd b \<Longrightarrow> nd (t @ b)"
  by (cases t) (auto simp: nd_def)

lemma scans_to_append:
  "scans_to t1 ps1 \<Longrightarrow> scans_to t2 ps2 \<Longrightarrow> nd t2 \<Longrightarrow> scans_to (t1 @ t2) (ps1 @ ps2)"
  unfolding scans_to_def
proof (intro allI impI)
  fix b assume a: "\<forall>b. nd b \<longrightarrow> scan_placeholders (t1 @ b) = ps1 @ scan_placeholders b"
    "\<forall>b. nd b \<longrightarrow> scan_placeholders (t2 @ b) = ps2 @ scan_placeholders b" "nd t2" "nd b"
  then have "nd (t2 @ b)" by (simp add: nd_append)
  with a show "scan_placeholders ((t1 @ t2) @ b) = (ps1 @ ps2) @ scan_placeholders b" by simp
qed

lemma upt_split: "[a ..< a + n] @ [a + n ..< a + n + m] = [a ..< a + n + m]"
  using upt_add_eq_append[of a "a + n" m] by simp

lemma upt_head: "[a ..< Suc (a + n)] = a # [Suc a ..< Suc (a + n)]"
  by (simp add: upt_conv_Cons del: upt_Suc)

lemma upt_single: "[a ..< Suc a] = [a]"
  by simp

lemma join_scans:
  assumes sep: "CHR ''$'' \<notin> set sep" "sep \<noteq> []" "nd sep"
  shows "scans_chain ts ns a \<Longrightarrow> scans_to (join sep ts) (map Suc [a ..< a + sum_list ns])"
proof (induction ts arbitrary: ns a)
  case Nil
  then show ?case by (cases ns) (simp_all add: scans_to_free)
next
  case (Cons t ts)
  from Cons.prems obtain n ns' where ns: "ns = n # ns'"
    by (cases ns) simp_all
  from Cons.prems ns have t: "scans_to t (map Suc [a ..< a + n])"
    and rest: "scans_chain ts ns' (a + n)" by simp_all
  show ?case
  proof (cases ts)
    case Nil
    with rest have "ns' = []" by (cases ns') simp_all
    with Nil t ns show ?thesis by simp
  next
    case (Cons y ys)
    from Cons.IH[OF rest]
    have "scans_to (join sep ts) (map Suc [a + n ..< a + n + sum_list ns'])" .
    then have r: "scans_to (sep @ join sep ts) (map Suc [a + n ..< a + n + sum_list ns'])"
      using sep(1) by (rule scans_to_prefix[rotated])
    have "nd (sep @ join sep ts)" using sep by (simp add: nd_append)
    from scans_to_append[OF t r this]
    have "scans_to (t @ sep @ join sep ts) (map Suc ([a ..< a + n] @ [a + n ..< a + n + sum_list ns']))"
      by simp
    then have "scans_to (t @ sep @ join sep ts) (map Suc [a ..< a + n + sum_list ns'])"
      by (simp only: upt_split)
    then show ?thesis using Cons ns by (simp add: add.assoc)
  qed
qed

lemma pushAll_eq:
  "pushAll xs vals =
     (map (\<lambda>i. ''$'' @ show_nat (Suc i)) [length vals ..< length vals + length xs], vals @ xs)"
proof (induction xs arbitrary: vals)
  case Nil
  then show ?case by simp
next
  case (Cons x xs)
  have "[length vals ..< length vals + length (x # xs)]
        = length vals # [Suc (length vals) ..< Suc (length vals) + length xs]"
    using upt_head[of "length vals" "length xs"] by (simp del: upt_Suc)
  with Cons.IH[of "vals @ [x]"] show ?case by (simp del: upt_Suc)
qed

lemma placeholders_chain:
  "scans_chain (map (\<lambda>i. ''$'' @ show_nat (Suc i)) [a ..< a + m]) (replicate m 1) a"
proof (induction m arbitrary: a)
  case 0
  then show ?case by simp
next
  case (Suc m)
  show ?case
    using Suc[of "Suc a"] scans_to_placeholder[of "Suc a"]
    by (simp add: upt_head upt_single del: upt_Suc)
qed

lemma mapOperator_free: "CHR ''$'' \<notin> set (mapOperator op)"
  by (cases op) simp_all

lemma Postgres_buildCondition_values:
  "snd (Postgres_buildCondition c vals) = vals @ cond_literals c"
  by (simp add: Postgres_buildCondition_def cond_literals_def pushAll_eq
      split: Operator.splits jsval.splits)

lemma scans_plain:
  assumes "CHR ''$'' \<notin> set f"
  shows "scans_to (f @ '' '' @ mapOperator op @ '' $'' @ show_nat (Suc a)) (map Suc [a ..< a + 1])"
proof -
  have "scans_to ((f @ '' '' @ mapOperator op @ '' '') @ (CHR ''$'' # show_nat (Suc a))) [Suc a]"
    using assms mapOperator_free by (intro scans_to_prefix scans_to_placeholder) simp
  then show ?thesis by simp
qed

lemma scans_inlist:
  assumes "CHR ''$'' \<notin> set f"
  shows "scans_to (f @ '' IN ('' @ join '', '' (map (\<lambda>i. ''$'' @ show_nat (Suc i)) [a ..< a + m]) @ '')'')
           (map Suc [a ..< a + m])"
proof -
  have j: "scans_to (join '', '' (map (\<lambda>i. ''$'' @ show_nat (Suc i)) [a ..< a + m]))
             (map Suc [a ..< a + sum_list (replicate m 1)])"
    by (rule join_scans[OF _ _ _ placeholders_chain]) (simp_all add: nd_def is_digit_def)
  have c: "scans_to '')'' []" by (rule scans_to_free) simp
  have "nd '')''" by (simp add: nd_def is_digit_def)
  from scans_to_append[OF j c this]
  have "scans_to (join '', '' (map (\<lambda>i. ''$'' @ show_nat (Suc i)) [a ..< a + m]) @ '')'')
          (map Suc [a ..< a + m])"
    by (simp add: sum_list_replicate del: upt_Suc)
  then have "scans_to ((f @ '' IN ('') @ join '', '' (map (\<lambda>i. ''$'' @ show_nat (Suc i)) [a ..< a + m]) @ '')'')
               (map Suc [a ..< a + m])"
    using assms by (intro scans_to_prefix[where a = "f @ '' IN (''"]) simp_all
  then show ?thesis by simp
qed

lemma Postgres_buildCondition_scans:
  assumes "CHR ''$'' \<notin> set (c_field c)"
  shows "scans_to (fst (Postgres_buildCondition c vals))
           (map Suc [length vals ..< length vals + length (cond_literals c)])"
proof (cases "\<exists>xs. c_operator c = In \<and> c_value c = JArr xs")
  case True
  then obtain xs where xs: "c_operator c = In" "c_value c = JArr xs" by blast
  show ?thesis
  proof (cases "xs = []")
    case True
    with xs show ?thesis
      by (simp add: Postgres_buildCondition_def cond_literals_def scans_to_free)
  next
    case False
    with xs scans_inlist[OF assms, of "length vals" "length xs"] show ?thesis
      by (simp add: Postgres_buildCondition_def cond_literals_def pushAll_eq del: upt_Suc)
  qed
next
  case False
  then have "Postgres_buildCondition c vals =
     (c_field c @ '' '' @ mapOperator (c_operator c) @ '' $'' @ show_nat (Suc (length vals)), vals @ [c_value c])"
    and "cond_literals c = [c_value c]"
    by (auto simp: Postgres_buildCondition_def cond_literals_def split: Operator.splits jsval.splits)
  with scans_plain[OF assms, of "c_operator c" "length vals"] show ?thesis
    by (simp del: upt_Suc)
qed


lemma Postgres_group_values:
  "snd (Postgres_buildLogicalGroup g vals) = vals @ group_literals g"
  "snd (Postgres_buildChildren cs vals) = vals @ children_literals cs"
proof (induction g vals and cs vals rule: Postgres_buildLogicalGroup_Postgres_buildChildren.induct)
  case (1 t cs vals)
  then show ?case by (cases cs) (simp_all add: split_beta)
next
  case (2 vals)
  then show ?case by simp
next
  case (3 c cs vals)
  from 3[OF refl prod.collapse]
  show ?case by (simp add: split_beta Postgres_buildCondition_values)
next
  case (4 g cs vals)
  from 4(1) 4(2)[OF refl prod.collapse]
  show ?case by (simp add: split_beta)
qed






lemma Postgres_buildConditions_values:
  "snd (Postgres_buildConditions cs vals) = vals @ concat (map cond_literals cs)"
proof (induction cs arbitrary: vals)
  case Nil
  then show ?case by simp
next
  case (Cons c cs)
  then show ?case by (simp add: split_beta Postgres_buildCondition_values)
qed

lemma Postgres_buildGroups_values:
  "snd (Postgres_buildGroups gs vals) = vals @ concat (map group_literals gs)"
proof (induction gs arbitrary: vals)
  case Nil
  then show ?case by simp
next
  case (Cons g gs)
  then show ?case by (simp add: split_beta Postgres_group_values)
qed





lemma Postgres_buildWhere_values:
  "snd (Postgres_buildWhere query vals) = vals @ where_literals query"
  by (simp add: Postgres_buildWhere_def where_literals_def split_beta
      Postgres_buildConditions_values Postgres_buildGroups_values split: option.splits)




subsection \<open>The aggregation pipeline\<close>

lemma obj_set_fresh:
  "ordinary_key k \<Longrightarrow> k \<notin> fst ` set kvs \<Longrightarrow> obj_set kvs k v = kvs @ [(k, v)]"
  by (simp add: obj_set_def obj_define_def ordinary_key_def)

lemma obj_set_id: "obj_set [(''_id'', w)] ''_id'' v = [(''_id'', v)]"
  by (simp add: obj_set_def obj_define_def)

lemma groupIdFields_distinct:
  "plain_keys fs \<Longrightarrow> set fs \<inter> fst ` set acc = {} \<Longrightarrow>
   groupIdFields fs acc = acc @ map (\<lambda>f. (f, JStr (''$'' @ f))) fs"
proof (induction fs arbitrary: acc)
  case Nil
  then show ?case by simp
next
  case (Cons f fs)
  from Cons.prems have fresh: "f \<notin> fst ` set acc" and o: "ordinary_key f"
    and r: "plain_keys fs"
    by (auto simp: plain_keys_def)
  from Cons.prems have "set fs \<inter> fst ` set (acc @ [(f, JStr (''$'' @ f))]) = {}"
    by (auto simp: plain_keys_def)
  with Cons.IH[OF r, of "acc @ [(f, JStr (''$'' @ f))]"] fresh o show ?case
    by (simp add: obj_set_fresh)
qed

lemma outField_described: "outField agg = described_name agg"
  by (simp add: outField_def described_name_def split: option.splits list.splits)

lemma aggExpr_entry: "(outField agg, aggExpr agg) = group_entry agg"
  by (simp add: group_entry_def aggExpr_def outField_described)

lemma addAggregations_distinct:
  "plain_keys (map outField aggs) \<Longrightarrow> set (map outField aggs) \<inter> fst ` set acc = {} \<Longrightarrow>
   addAggregations aggs acc = acc @ map group_entry aggs"
proof (induction aggs arbitrary: acc)
  case Nil
  then show ?case by simp
next
  case (Cons a aggs)
  from Cons.prems have fresh: "outField a \<notin> fst ` set acc" and o: "ordinary_key (outField a)"
    and r: "plain_keys (map outField aggs)"
    by (auto simp: plain_keys_def)
  from Cons.prems have "set (map outField aggs) \<inter> fst ` set (acc @ [(outField a, aggExpr a)]) = {}"
    by (auto simp: plain_keys_def)
  with Cons.IH[OF r, of "acc @ [(outField a, aggExpr a)]"] fresh o show ?case
    by (simp add: obj_set_fresh aggExpr_entry)
qed

lemma Mongo_buildCondition_obj: "\<exists>kvs. Mongo_buildCondition c = JObj kvs"
  by (simp add: Mongo_buildCondition_def split: Operator.splits)

lemma Mongo_buildLogicalGroup_obj: "\<exists>kvs. Mongo_buildLogicalGroup g = JObj kvs"
  by (cases g) (simp add: Let_def split: GroupType.splits)

lemma Mongo_buildFilter_obj: "\<exists>kvs. Mongo_buildFilter query = JObj kvs"
proof -
  define cl where "cl = (case q_conditions query of None \<Rightarrow> [] | Some cs \<Rightarrow> map Mongo_buildCondition cs)
      @ (case q_logical query of None \<Rightarrow> [] | Some gs \<Rightarrow> map Mongo_buildLogicalGroup gs)"
  have all: "\<forall>x \<in> set cl. \<exists>kvs. x = JObj kvs"
    using Mongo_buildCondition_obj Mongo_buildLogicalGroup_obj
    by (auto simp: cl_def split: option.splits)
  have f: "Mongo_buildFilter query =
      (if length cl = 1 then cl ! 0 else if 1 < length cl then JObj [(''$and'', JArr cl)] else JObj [])"
    by (simp add: Mongo_buildFilter_def cl_def Let_def split: option.splits)
  show ?thesis
  proof (cases "length cl = 1")
    case True
    then have "cl ! 0 \<in> set cl" by simp
    with all True f show ?thesis by auto
  next
    case False
    with f show ?thesis by simp
  qed
qed

lemma match_stage:
  "(if 0 < length (Object_keys (Mongo_buildFilter query)) then [JObj [(''$match'', Mongo_buildFilter query)]] else [])
   = (if Mongo_buildFilter query = JObj [] then [] else [JObj [(''$match'', Mongo_buildFilter query)]])"
  using Mongo_buildFilter_obj[of query] by auto

lemma group_stage_shape:
  assumes "length (group_fields query) \<le> 1 \<or> plain_keys (group_fields query)"
    and "plain_keys (output_names query)"
    and "''_id'' \<notin> set (output_names query)"
  shows "(case q_aggregations query of
            None \<Rightarrow> (case q_groupBy query of
               None \<Rightarrow> [(''_id'', JNull)]
             | Some gb \<Rightarrow>
                 if 0 < length gb then
                   (if length gb = 1 then obj_set [(''_id'', JNull)] ''_id'' (JStr (''$'' @ gb ! 0))
                    else obj_set [(''_id'', JNull)] ''_id'' (JObj (groupIdFields gb [])))
                 else [(''_id'', JNull)])
          | Some aggs \<Rightarrow> addAggregations aggs (case q_groupBy query of
               None \<Rightarrow> [(''_id'', JNull)]
             | Some gb \<Rightarrow>
                 if 0 < length gb then
                   (if length gb = 1 then obj_set [(''_id'', JNull)] ''_id'' (JStr (''$'' @ gb ! 0))
                    else obj_set [(''_id'', JNull)] ''_id'' (JObj (groupIdFields gb [])))
                 else [(''_id'', JNull)]))
         = (''_id'', group_id (q_groupBy query))
             # map group_entry (case q_aggregations query of None \<Rightarrow> [] | Some aggs \<Rightarrow> aggs)"
proof -
  have g: "(case q_groupBy query of
               None \<Rightarrow> [(''_id'', JNull)]
             | Some gb \<Rightarrow>
                 if 0 < length gb then
                   (if length gb = 1 then obj_set [(''_id'', JNull)] ''_id'' (JStr (''$'' @ gb ! 0))
                    else obj_set [(''_id'', JNull)] ''_id'' (JObj (groupIdFields gb [])))
                 else [(''_id'', JNull)]) = [(''_id'', group_id (q_groupBy query))]"
  proof (cases "q_groupBy query")
    case None
    then show ?thesis by (simp add: group_id_def)
  next
    case (Some gb)
    with assms(1) have d: "length gb \<le> 1 \<or> plain_keys gb" by (simp add: group_fields_def)
    show ?thesis
    proof (cases gb)
      case Nil
      with Some show ?thesis by (simp add: group_id_def)
    next
      case (Cons f fs)
      note c1 = this
      show ?thesis
      proof (cases fs)
        case Nil
        with Some c1 show ?thesis by (simp add: group_id_def obj_set_id)
      next
        case (Cons f' fs')
        with c1 d have "plain_keys gb" by simp
        from groupIdFields_distinct[OF this, of "[]"] Some c1 Cons show ?thesis
          by (simp add: group_id_def obj_set_id)
      qed
    qed
  qed
  show ?thesis
  proof (cases "q_aggregations query")
    case None
    with g show ?thesis by simp
  next
    case (Some aggs)
    have e: "map outField aggs = map described_name aggs"
      by (simp add: outField_described)
    from Some assms(2,3) have "plain_keys (map outField aggs)"
      and "set (map outField aggs) \<inter> fst ` set [(''_id'', group_id (q_groupBy query))] = {}"
      unfolding e by (auto simp: output_names_def)
    from addAggregations_distinct[OF this] Some g show ?thesis by simp
  qed
qed

lemma sortDirection_eq: "sortDirection d = JNum (if d = Asc then 1 else - 1)"
  by (simp add: sortDirection_def)

lemma pipeline_shape:
  assumes "length (group_fields query) \<le> 1 \<or> plain_keys (group_fields query)"
    and "plain_keys (output_names query)"
    and "''_id'' \<notin> set (output_names query)"
  shows "Mongo_buildAggregatePipeline query (Mongo_buildFilter query) = described_pipeline query"
  unfolding Mongo_buildAggregatePipeline_def described_pipeline_def Let_def
    match_stage group_stage_shape[OF assms] sortDirection_eq sort_key_def
  by (simp split: option.splits)

subsection \<open>The builder\<close>

lemmas builder_defs = builder_where_def builder_or_def builder_and_def builder_limit_def builder_offset_def builder_paginate_def builder_orderBy_def builder_select_def builder_insert_def builder_update_def builder_delete_def builder_groupBy_def builder_aggregate_def

lemma applyCall_data: "(b_data (applyCall b c) = None) = (b_data b = None \<and> \<not> carriesData c)"
  by (cases c) (simp_all add: builder_defs)

lemma foldl_data: "(b_data (foldl applyCall b calls) = None) = (b_data b = None \<and> \<not> (\<exists>c \<in> set calls. carriesData c))"
  by (induction calls arbitrary: b) (auto simp: applyCall_data)

lemma applyCall_mode:
  "b_mode b \<in> {Insert, Update} \<longrightarrow> b_data b \<noteq> None \<Longrightarrow>
   b_mode (applyCall b c) \<in> {Insert, Update} \<longrightarrow> b_data (applyCall b c) \<noteq> None"
  by (cases c) (simp_all add: builder_defs)

lemma foldl_mode:
  "b_mode b \<in> {Insert, Update} \<longrightarrow> b_data b \<noteq> None \<Longrightarrow>
   b_mode (foldl applyCall b calls) \<in> {Insert, Update} \<longrightarrow> b_data (foldl applyCall b calls) \<noteq> None"
proof (induction calls arbitrary: b)
  case Nil
  then show ?case by simp
next
  case (Cons c calls)
  from Cons.IH[OF applyCall_mode[OF Cons.prems]] show ?case by simp
qed

subsection \<open>Statement texts, migration plans and sync\<close>






lemma Postgres_buildSelect_shape:
  "Postgres_buildSelect query
     = (select_statement (projection_items query @ aggregation_items query) query,
        snd (Postgres_buildWhere query []))"
  by (simp add: Postgres_buildSelect_def select_statement_def select_tail_def
      projection_items_def aggregation_items_def split_beta Let_def split: option.splits)





























lemma pgType_declared: "pgType inherited (decl_def d) = code_types (decl_type d)"
proof (cases d)
  case (Plain t)
  then show ?thesis
    by (cases t) (simp_all add: pgType_def typeMap_def fieldTypeOf_def)
next
  case (Detailed t df rq)
  then show ?thesis
    by (cases t) (simp_all add: pgType_def typeMap_def fieldTypeOf_def)
qed

lemma createColumns_eq:
  "createColumns inherited (map (\<lambda>fd. (fst fd, decl_def (snd fd))) fds) columns
     = columns @ map (column_def code_types) (filter (\<lambda>fd. fst fd \<noteq> ''id'') fds)"
proof (induction fds arbitrary: columns)
  case Nil
  then show ?case by simp
next
  case (Cons fd fds)
  then show ?case
    by (cases fd) (simp add: column_def_def pgType_declared)
qed

lemma addColumns_eq:
  "fst (addColumns inherited tbl existing (map (\<lambda>fd. (fst fd, decl_def (snd fd))) fds) (operations, logs))
     = operations @ map (add_statement code_types tbl)
         (filter (\<lambda>fd. fst fd \<noteq> ''id'' \<and> fst fd \<notin> set existing) fds)"
proof (induction fds arbitrary: operations logs)
  case Nil
  then show ?case by simp
next
  case (Cons fd fds)
  then show ?case
    by (cases fd) (simp add: add_statement_def column_def_def pgType_declared)
qed

lemma schema_of_sel:
  "m_table (schema_of ts) = ts_table ts"
  "m_fields (schema_of ts) = map (\<lambda>fd. (fst fd, decl_def (snd fd))) (ts_fields ts)"
  by (simp_all add: schema_of_def)

lemma Postgres_planModels_eq:
  "fst (Postgres_planModels inherited catalogue (map schema_of schemas) acc)
     = fst acc @ concat (map (model_operations code_types catalogue) schemas)"
proof (induction schemas arbitrary: acc)
  case Nil
  then show ?case by (cases acc) simp
next
  case (Cons ts schemas)
  obtain operations logs where acc: "acc = (operations, logs)" by (cases acc)
  show ?case
  proof (cases "catalogue (ts_table ts)")
    case None
    then show ?thesis
      by (simp add: acc Cons.IH model_operations_def create_statement_def createColumns_eq
          schema_of_sel)
  next
    case (Some cols)
    then show ?thesis
      using addColumns_eq[of inherited "ts_table ts" cols "ts_fields ts" operations logs]
      by (simp add: acc Cons.IH model_operations_def schema_of_sel)
  qed
qed

lemma in_sync_no_operations:
  "in_sync catalogue schemas \<Longrightarrow> concat (map (model_operations types catalogue) schemas) = []"
proof (induction schemas)
  case Nil
  then show ?case by simp
next
  case (Cons ts schemas)
  from Cons.prems obtain cols where c: "catalogue (ts_table ts) = Some cols"
    and f: "list_all (\<lambda>fd. fst fd = ''id'' \<or> fst fd \<in> set cols) (ts_fields ts)"
    and r: "in_sync catalogue schemas"
    by (auto simp: in_sync_def split: option.splits)
  from f have "filter (\<lambda>fd. fst fd \<noteq> ''id'' \<and> fst fd \<notin> set cols) (ts_fields ts) = []"
    by (auto simp: filter_empty_conv list_all_iff)
  with c Cons.IH[OF r] show ?case by (simp add: model_operations_def)
qed

lemma Mongo_applyOperations_no_error: "fst (Mongo_applyOperations command ops db) = None"
  by (induction ops arbitrary: db) (simp_all split: prod.splits option.splits)

section \<open>The claims\<close>

subsection \<open>Placeholder binding of the relational compiler\<close>



subsection \<open>The capability gate\<close>

text \<open>
  Claim C3. Validating a query AST raises \<open>CapabilityError\<close> exactly when the capability
  set's aggregation flag is false and the AST's aggregations list or its groupBy list is
  non-empty; it raises no other error; and the same AST validated against a capability set
  whose aggregation flag is true returns normally.
\<close>

theorem C3_capability_gate:
  "((\<exists>msg. validateQuery query capabilities = Inl (CapabilityError msg)) \<longleftrightarrow>
      (\<not> supportsAggregation capabilities \<and>
       (nonEmpty (q_aggregations query) \<or> nonEmpty (q_groupBy query))))
   \<and> ((\<exists>e. validateQuery query capabilities = Inl e) \<longleftrightarrow>
      (\<exists>msg. validateQuery query capabilities = Inl (CapabilityError msg)))
   \<and> validateQuery query (capabilities\<lparr>supportsAggregation := True\<rparr>) = Inr True"
  by (simp add: validateQuery_def)

subsection \<open>The \<open>in\<close> operator\<close>

text \<open>
  Claim C4. For a condition whose operator is \<open>in\<close> and whose value is an array: when the
  array is empty the relational compiler renders the contradiction \<open>1=0\<close> and leaves the
  value list as it was, and the document compiler produces \<open>{field: {$in: []}}\<close>, which no
  document matches; when the array is not empty the relational compiler renders
  \<open><field> IN ($n, $n+1, \<dots>)\<close> with one placeholder per element, numbered from the
  length of the value list plus one, and appends the elements. Both compilers are total
  functions: each returns a statement or a filter for every such condition.
\<close>

theorem C4_in_operator:
  assumes "c_operator c = In" and "c_value c = JArr xs"
  shows "(xs = [] \<longrightarrow>
            Postgres_buildCondition c vals = (''1=0'', vals)
          \<and> Mongo_buildCondition c = JObj [(c_field c, JObj [(''$in'', JArr [])])]
          \<and> (\<forall>agrees doc. \<not> matches_in agrees doc (Mongo_buildCondition c)))
       \<and> (xs \<noteq> [] \<longrightarrow>
            Postgres_buildCondition c vals
              = (c_field c @ '' IN (''
                   @ join '', '' (map (\<lambda>i. ''$'' @ show_nat (Suc i)) [length vals ..< length vals + length xs])
                   @ '')'',
                 vals @ xs)
          \<and> (CHR ''$'' \<notin> set (c_field c) \<longrightarrow>
                scan_placeholders (fst (Postgres_buildCondition c vals))
                  = map Suc [length vals ..< length vals + length xs]))"
proof (intro conjI impI)
  assume e: "xs = []"
  with assms show "Postgres_buildCondition c vals = (''1=0'', vals)"
    by (simp add: Postgres_buildCondition_def)
  from assms e show m: "Mongo_buildCondition c = JObj [(c_field c, JObj [(''$in'', JArr [])])]"
    by (simp add: Mongo_buildCondition_def)
  show "\<forall>agrees doc. \<not> matches_in agrees doc (Mongo_buildCondition c)"
    by (simp add: m matches_in_def)
next
  assume n: "xs \<noteq> []"
  with assms show "Postgres_buildCondition c vals
              = (c_field c @ '' IN (''
                   @ join '', '' (map (\<lambda>i. ''$'' @ show_nat (Suc i)) [length vals ..< length vals + length xs])
                   @ '')'',
                 vals @ xs)"
    by (simp add: Postgres_buildCondition_def pushAll_eq del: upt_Suc)
next
  assume "xs \<noteq> []" and f: "CHR ''$'' \<notin> set (c_field c)"
  from assms have "cond_literals c = xs" by (simp add: cond_literals_def)
  with Postgres_buildCondition_scans[OF f, of vals, unfolded scans_to_def, rule_format, of "[]"]
  show "scan_placeholders (fst (Postgres_buildCondition c vals))
          = map Suc [length vals ..< length vals + length xs]"
    by (simp add: nd_def del: upt_Suc)
qed

text \<open>An empty and a two-element array, on a value list that already holds one value.\<close>

theorem C4_in_operator_witness:
  "Postgres_buildCondition \<lparr>c_field = ''role'', c_operator = In, c_value = JArr []\<rparr> [JNum 7]
     = (''1=0'', [JNum 7])
   \<and> (\<forall>agrees doc. \<not> matches_in agrees doc
         (Mongo_buildCondition \<lparr>c_field = ''role'', c_operator = In, c_value = JArr []\<rparr>))
   \<and> Postgres_buildCondition
        \<lparr>c_field = ''role'', c_operator = In, c_value = JArr [JStr ''admin'', JStr ''owner'']\<rparr> [JNum 7]
     = (''role IN ($2, $3)'', [JNum 7, JStr ''admin'', JStr ''owner''])
   \<and> scan_placeholders (fst (Postgres_buildCondition
        \<lparr>c_field = ''role'', c_operator = In, c_value = JArr [JStr ''admin'', JStr ''owner'']\<rparr> [JNum 7]))
     = [2, 3]"
proof -
  let ?c0 = "\<lparr>c_field = ''role'', c_operator = In, c_value = JArr []\<rparr>"
  let ?xs = "[JStr ''admin'', JStr ''owner'']"
  let ?c1 = "\<lparr>c_field = ''role'', c_operator = In, c_value = JArr ?xs\<rparr>"
  have h0: "c_operator ?c0 = In" "c_value ?c0 = JArr []" by simp_all
  have h1: "c_operator ?c1 = In" "c_value ?c1 = JArr ?xs" by simp_all
  have ne: "?xs \<noteq> []" and df: "CHR ''$'' \<notin> set (c_field ?c1)" by simp_all
  from C4_in_operator[OF h0, of "[JNum 7]"]
  have e: "Postgres_buildCondition ?c0 [JNum 7] = (''1=0'', [JNum 7])"
    "\<forall>agrees doc. \<not> matches_in agrees doc (Mongo_buildCondition ?c0)"
    by blast+
  from C4_in_operator[OF h1, of "[JNum 7]"] ne df
  have A: "Postgres_buildCondition ?c1 [JNum 7]
             = (c_field ?c1 @ '' IN (''
                  @ join '', '' (map (\<lambda>i. ''$'' @ show_nat (Suc i))
                                   [length [JNum 7] ..< length [JNum 7] + length ?xs])
                  @ '')'',
                [JNum 7] @ ?xs)"
    and B: "scan_placeholders (fst (Postgres_buildCondition ?c1 [JNum 7]))
             = map Suc [length [JNum 7] ..< length [JNum 7] + length ?xs]"
    by blast+
  have j: "(c_field ?c1 @ '' IN (''
                  @ join '', '' (map (\<lambda>i. ''$'' @ show_nat (Suc i))
                                   [length [JNum 7] ..< length [JNum 7] + length ?xs])
                  @ '')'',
                [JNum 7] @ ?xs) = (''role IN ($2, $3)'', [JNum 7, JStr ''admin'', JStr ''owner''])"
    by code_simp
  have u: "map Suc [length [JNum 7] ..< length [JNum 7] + length ?xs] = [2, 3]"
    by code_simp
  from e A[unfolded j] B[unfolded u] show ?thesis by blast
qed

subsection \<open>The aggregation pipeline of the document compiler\<close>

text \<open>
  Claim C5, as amended. Take a select AST with grouping or aggregation whose aggregation
  output names (the alias, or \<open><function>_<field>\<close> when no alias is set) are pairwise
  distinct, different from \<open>_id\<close> and ordinary keys (neither \<open>__proto__\<close> nor a canonical
  array index), and whose group-by fields, when there are several, are pairwise distinct
  ordinary keys. For it the document compiler emits the pipeline \<open>$match\<close> (only if the
  compiled filter is not empty), \<open>$group\<close> (with \<open>_id\<close> the field reference for one
  group-by field, an object with one entry per field for several, \<open>null\<close> for none;
  \<open>{$sum: 1}\<close> for a count and \<open>{$func: "$field"}\<close> for any other aggregation, under its
  output name), \<open>$sort\<close> (a group key remapped to \<open>_id\<close> or \<open>_id.<field>\<close>), \<open>$skip\<close>,
  \<open>$limit\<close>, in this order, each of the last three only when its AST field is present. For
  the sales example the pipeline is the one the specification gives.
\<close>

theorem C5_pipeline_shape:
  assumes "q_type query = Select"
    and "q_aggregations query \<noteq> None \<or> q_groupBy query \<noteq> None"
    and "length (group_fields query) \<le> 1 \<or> plain_keys (group_fields query)"
    and "plain_keys (output_names query)"
    and "''_id'' \<notin> set (output_names query)"
  shows "p_type (Mongo_plan query) = MongoPipeline
       \<and> p_pipeline (Mongo_plan query) = Some (described_pipeline query)
       \<and> p_pipeline (Mongo_plan sales_query)
           = Some [JObj [(''$match'', JObj [(''status'', JStr ''paid'')])],
                   JObj [(''$group'',
                          JObj [(''_id'', JObj [(''category'', JStr ''$category''),
                                                (''year'', JStr ''$year'')]),
                                (''total'', JObj [(''$sum'', JStr ''$amount'')])])]]"
proof -
  have "p_pipeline (Mongo_plan sales_query)
           = Some [JObj [(''$match'', JObj [(''status'', JStr ''paid'')])],
                   JObj [(''$group'',
                          JObj [(''_id'', JObj [(''category'', JStr ''$category''),
                                                (''year'', JStr ''$year'')]),
                                (''total'', JObj [(''$sum'', JStr ''$amount'')])])]]"
    by code_simp
  with assms(1,2) pipeline_shape[OF assms(3,4,5)] show ?thesis
    by (auto simp: Mongo_plan_def Let_def emptyPlan_def)
qed

text \<open>The sales example meets the hypotheses.\<close>

theorem C5_pipeline_shape_witness:
  "q_type sales_query = Select
   \<and> q_aggregations sales_query \<noteq> None \<and> q_groupBy sales_query \<noteq> None
   \<and> plain_keys (group_fields sales_query) \<and> plain_keys (output_names sales_query)
   \<and> ''_id'' \<notin> set (output_names sales_query)
   \<and> p_pipeline (Mongo_plan sales_query) = Some (described_pipeline sales_query)
   \<and> described_pipeline sales_query
       = [JObj [(''$match'', JObj [(''status'', JStr ''paid'')])],
          JObj [(''$group'',
                 JObj [(''_id'', JObj [(''category'', JStr ''$category''), (''year'', JStr ''$year'')]),
                       (''total'', JObj [(''$sum'', JStr ''$amount'')])])]]"
proof -
  have h: "q_type sales_query = Select"
    "q_aggregations sales_query \<noteq> None \<or> q_groupBy sales_query \<noteq> None"
    "length (group_fields sales_query) \<le> 1 \<or> plain_keys (group_fields sales_query)"
    "plain_keys (output_names sales_query)"
    "''_id'' \<notin> set (output_names sales_query)"
    by code_simp+
  have g: "q_aggregations sales_query \<noteq> None" "q_groupBy sales_query \<noteq> None"
    "plain_keys (group_fields sales_query)"
    by code_simp+
  have d: "described_pipeline sales_query
       = [JObj [(''$match'', JObj [(''status'', JStr ''paid'')])],
          JObj [(''$group'',
                 JObj [(''_id'', JObj [(''category'', JStr ''$category''), (''year'', JStr ''$year'')]),
                       (''total'', JObj [(''$sum'', JStr ''$amount'')])])]]"
    by code_simp
  from C5_pipeline_shape[OF h] h g d show ?thesis by blast
qed

text \<open>
  Claim C5 as stated fails for an aggregation whose alias is \<open>_id\<close>: the assignment of
  the aggregation overwrites the grouping key.
\<close>

theorem C5_counterexample:
  "q_type id_alias_query = Select \<and> q_groupBy id_alias_query = Some [''region'']
   \<and> p_pipeline (Mongo_plan id_alias_query)
       = Some [JObj [(''$group'', JObj [(''_id'', JObj [(''$sum'', JNum 1)])])]]
   \<and> p_pipeline (Mongo_plan id_alias_query) \<noteq> Some (described_pipeline id_alias_query)"
  by code_simp

subsection \<open>Order of validation, compilation and execution in the router\<close>

text \<open>
  Claim C6, as amended. In every query execution through the router the backend's
  \<open>plan\<close> is called first, the capability validator second, and \<open>execute\<close> only after the
  validator; when the plan is produced and the validator rejects the AST, the execution ends
  after these two calls with the validator's \<open>CapabilityError\<close>: no backend I/O has
  occurred and no observer has been notified.
\<close>

theorem C6_router_order:
  "precedes Planned Validated (fst (SynqraQuery_execute adapters query))
   \<and> precedes Validated Executed (fst (SynqraQuery_execute adapters query))
   \<and> (getAdapterByIntent adapters (q_intent query) = Some adapter
        \<and> a_plan adapter query = Inr plan
        \<and> validateQuery query (a_capabilities adapter) = Inl e
      \<longrightarrow> SynqraQuery_execute adapters query = ([Planned, Validated], Inl e)
          \<and> (\<exists>msg. e = CapabilityError msg))"
proof (intro conjI impI)
  show "precedes Planned Validated (fst (SynqraQuery_execute adapters query))"
    by (simp add: SynqraQuery_execute_def split: option.splits sum.splits)
  show "precedes Validated Executed (fst (SynqraQuery_execute adapters query))"
    by (simp add: SynqraQuery_execute_def split: option.splits sum.splits)
next
  assume a: "getAdapterByIntent adapters (q_intent query) = Some adapter
        \<and> a_plan adapter query = Inr plan
        \<and> validateQuery query (a_capabilities adapter) = Inl e"
  then show "SynqraQuery_execute adapters query = ([Planned, Validated], Inl e)"
    by (simp add: SynqraQuery_execute_def)
  from a show "\<exists>msg. e = CapabilityError msg"
    by (auto simp: validateQuery_def split: if_splits)
qed

text \<open>A \<open>count\<close> query against an adapter without aggregation support.\<close>

theorem C6_router_order_witness:
  "getAdapterByIntent (only_primary restricted_adapter) (q_intent count_query) = Some restricted_adapter
   \<and> a_plan restricted_adapter count_query
       = Inr ((emptyPlan Sql)\<lparr>p_query := Some ''SELECT COUNT(id) FROM sales'', p_values := Some []\<rparr>)
   \<and> validateQuery count_query (a_capabilities restricted_adapter)
       = Inl (CapabilityError ''Adapter does not support aggregations'')
   \<and> SynqraQuery_execute (only_primary restricted_adapter) count_query
       = ([Planned, Validated], Inl (CapabilityError ''Adapter does not support aggregations''))"
proof -
  have g: "getAdapterByIntent (only_primary restricted_adapter) (q_intent count_query) = Some restricted_adapter"
    by (simp add: getAdapterByIntent_def only_primary_def)
  have p: "a_plan restricted_adapter count_query
       = Inr ((emptyPlan Sql)\<lparr>p_query := Some ''SELECT COUNT(id) FROM sales'', p_values := Some []\<rparr>)"
  proof -
    have "Postgres_plan count_query
       = Inr ((emptyPlan Sql)\<lparr>p_query := Some ''SELECT COUNT(id) FROM sales'', p_values := Some []\<rparr>)"
      by code_simp
    then show ?thesis by (simp add: restricted_adapter_def postgres_adapter_def)
  qed
  have v: "validateQuery count_query (a_capabilities restricted_adapter)
       = Inl (CapabilityError ''Adapter does not support aggregations'')"
    by (simp add: validateQuery_def restricted_adapter_def postgres_adapter_def
        postgres_capabilities_def count_query_def blank_query_def nonEmpty_def)
  from C6_router_order[of "only_primary restricted_adapter" count_query restricted_adapter
      "(emptyPlan Sql)\<lparr>p_query := Some ''SELECT COUNT(id) FROM sales'', p_values := Some []\<rparr>"
      "CapabilityError ''Adapter does not support aggregations''"] g p v
  show ?thesis by blast
qed

text \<open>
  Claim C6 as stated fails: the compiler has already lowered the AST when the validator
  runs.
\<close>

theorem C6_counterexample:
  "fst (SynqraQuery_execute (only_primary postgres_adapter) count_query)
     = [Planned, Validated, Executed, Observed]
   \<and> \<not> precedes Validated Planned (fst (SynqraQuery_execute (only_primary postgres_adapter) count_query))"
proof -
  have p: "Postgres_plan count_query
       = Inr ((emptyPlan Sql)\<lparr>p_query := Some ''SELECT COUNT(id) FROM sales'', p_values := Some []\<rparr>)"
    by code_simp
  have v: "validateQuery count_query postgres_capabilities = Inr True"
    by (simp add: validateQuery_def postgres_capabilities_def)
  have "fst (SynqraQuery_execute (only_primary postgres_adapter) count_query)
     = [Planned, Validated, Executed, Observed]"
    by (simp add: SynqraQuery_execute_def getAdapterByIntent_def only_primary_def
        postgres_adapter_def p v)
  then show ?thesis by simp
qed

subsection \<open>The SELECT statement of the relational compiler\<close>

text \<open>
  Claim C7, as amended. For every select AST the relational compiler emits
  \<open>SELECT <cols> FROM <table>\<close> where \<open><cols>\<close> is the projection list followed by the
  rendered aggregation list (each \<open>FUNC(field)\<close> with the function name in upper case,
  followed by \<open> AS alias\<close> when a non-empty alias is set), or \<open>*\<close> when both are empty;
  then WHERE, GROUP BY, ORDER BY, LIMIT and OFFSET in this order, each only when its AST
  field is present (WHERE only when there is a condition or a logical group). The value
  list is the list of the WHERE literals.
\<close>

theorem C7_select_shape:
  "Postgres_buildSelect query
     = (select_statement (projection_items query @ aggregation_items query) query,
        where_literals query)
   \<and> aggStr agg
     = toUpperCase (function_name (agg_function agg)) @ ''('' @ agg_field agg @ '')''
       @ (case agg_alias agg of None \<Rightarrow> [] | Some a \<Rightarrow> if a = [] then [] else '' AS '' @ a)
   \<and> map (\<lambda>f. toUpperCase (function_name f)) [Count, Sum, Avg, Min, Max]
     = [''COUNT'', ''SUM'', ''AVG'', ''MIN'', ''MAX'']"
proof (intro conjI)
  show "Postgres_buildSelect query
     = (select_statement (projection_items query @ aggregation_items query) query,
        where_literals query)"
    using Postgres_buildWhere_values[of query "[]"] by (simp add: Postgres_buildSelect_shape)
  show "aggStr agg
     = toUpperCase (function_name (agg_function agg)) @ ''('' @ agg_field agg @ '')''
       @ (case agg_alias agg of None \<Rightarrow> [] | Some a \<Rightarrow> if a = [] then [] else '' AS '' @ a)"
    by (simp add: aggStr_def Let_def split: option.splits)
  show "map (\<lambda>f. toUpperCase (function_name f)) [Count, Sum, Avg, Min, Max]
     = [''COUNT'', ''SUM'', ''AVG'', ''MIN'', ''MAX'']"
    by code_simp
qed

text \<open>
  Claim C7 as stated fails: with a projection and an aggregation, the projection comes
  first in the statement.
\<close>

theorem C7_counterexample:
  "fst (Postgres_buildSelect region_totals_query) = ''SELECT region, SUM(amount) AS total FROM sales''
   \<and> select_statement (aggregation_items region_totals_query @ projection_items region_totals_query)
        region_totals_query = ''SELECT SUM(amount) AS total, region FROM sales''
   \<and> fst (Postgres_buildSelect region_totals_query)
       \<noteq> select_statement (aggregation_items region_totals_query @ projection_items region_totals_query)
            region_totals_query"
  by code_simp

subsection \<open>The relational migration planner\<close>

text \<open>
  Claim C8, as amended. For schemas whose fields are declared with the types of
  core/schema.ts, the operations of a relational plan are, schema by schema: for a table
  absent from the catalogue, one \<open>CREATE TABLE\<close> whose column list starts with
  \<open>id SERIAL PRIMARY KEY\<close> followed by one column per declared field other than \<open>id\<close>;
  for a table that is present, one \<open>ADD COLUMN\<close> per declared field other than \<open>id\<close>
  that the catalogue's column list lacks. Types map string to VARCHAR(255), number to
  FLOAT, boolean to BOOLEAN, date to TIMESTAMP, object and array to JSONB. Planning against
  a catalogue that is in sync gives no operation. All of this holds whatever the type
  table inherits from its prototype.
\<close>

theorem C8_migration_plan:
  "mp_operations (Postgres_planSync inherited catalogue (map schema_of schemas))
     = concat (map (model_operations code_types catalogue) schemas)
   \<and> map code_types [TString, TNumber, TBoolean, TDate, TObject, TArray]
     = [''VARCHAR(255)'', ''FLOAT'', ''BOOLEAN'', ''TIMESTAMP'', ''JSONB'', ''JSONB'']
   \<and> (in_sync catalogue schemas \<longrightarrow>
        mp_operations (Postgres_planSync inherited catalogue (map schema_of schemas)) = [])"
proof -
  have ops: "mp_operations (Postgres_planSync inherited catalogue (map schema_of schemas))
     = concat (map (model_operations code_types catalogue) schemas)"
    using Postgres_planModels_eq[of inherited catalogue schemas "([], [])"]
    by (simp add: Postgres_planSync_def split_beta)
  have "map code_types [TString, TNumber, TBoolean, TDate, TObject, TArray]
     = [''VARCHAR(255)'', ''FLOAT'', ''BOOLEAN'', ''TIMESTAMP'', ''JSONB'', ''JSONB'']"
    by simp
  with ops in_sync_no_operations[of catalogue schemas code_types] show ?thesis by simp
qed

text \<open>A catalogue that already holds the table and columns of the model.\<close>

theorem C8_migration_plan_witness:
  "in_sync ((\<lambda>t. None)(''users'' := Some [''id'', ''name'', ''age''])) [user_schema]
   \<and> mp_operations (Postgres_planSync (\<lambda>t. None)
         ((\<lambda>t. None)(''users'' := Some [''id'', ''name'', ''age''])) (map schema_of [user_schema])) = []"
proof -
  have "in_sync ((\<lambda>t. None)(''users'' := Some [''id'', ''name'', ''age''])) [user_schema]"
    by (simp add: in_sync_def user_schema_def)
  with C8_migration_plan[of "\<lambda>t. None" "(\<lambda>t. None)(''users'' := Some [''id'', ''name'', ''age''])"
      "[user_schema]"]
  show ?thesis by blast
qed

text \<open>
  Claim C8 as stated fails on the type table: an object field becomes a JSONB column, not a
  JSON column.
\<close>

theorem C8_counterexample:
  "mp_operations (Postgres_planSync (\<lambda>t. None) (\<lambda>t. None) (map schema_of [profile_schema]))
     = [''CREATE TABLE '' @ dq @ ''profiles'' @ dq @ '' (id SERIAL PRIMARY KEY, ''
          @ dq @ ''name'' @ dq @ '' VARCHAR(255), '' @ dq @ ''meta'' @ dq @ '' JSONB);'']
   \<and> concat (map (model_operations described_types (\<lambda>t. None)) [profile_schema])
     = [''CREATE TABLE '' @ dq @ ''profiles'' @ dq @ '' (id SERIAL PRIMARY KEY, ''
          @ dq @ ''name'' @ dq @ '' VARCHAR(255), '' @ dq @ ''meta'' @ dq @ '' JSON);'']
   \<and> mp_operations (Postgres_planSync (\<lambda>t. None) (\<lambda>t. None) (map schema_of [profile_schema]))
       \<noteq> concat (map (model_operations described_types (\<lambda>t. None)) [profile_schema])"
  by code_simp

subsection \<open>Errors during sync\<close>

text \<open>
  Claim C9 does not hold of the code. The document adapter's sync never surfaces an error,
  whatever the commands throw: with a backend that rejects every command as unauthorized
  it returns normally. The relational adapter's sync has no tolerance: when the first of
  two planned \<open>ADD COLUMN\<close> statements fails because the column already exists, the error
  is raised and the second statement is never sent.
\<close>

theorem C9_sync_errors:
  "fst (Mongo_sync listCollections command models db) = None
   \<and> Mongo_sync (\<lambda>db. []) unauthorized_command [user_model] [] = (None, [])
   \<and> mp_operations (Postgres_planSync inherited ((\<lambda>t. None)(''users'' := Some [''id''])) [user_model])
       = [''ALTER TABLE '' @ dq @ ''users'' @ dq @ '' ADD COLUMN '' @ dq @ ''name'' @ dq @ '' VARCHAR(255);'',
          ''ALTER TABLE '' @ dq @ ''users'' @ dq @ '' ADD COLUMN '' @ dq @ ''age'' @ dq @ '' FLOAT;'']
   \<and> Postgres_sync inherited (\<lambda>db. (\<lambda>t. None)(''users'' := Some [''id''])) name_exists_run [user_model] []
       = (Some (BackendError ''column already exists''), [])"
proof (intro conjI)
  show "fst (Mongo_sync listCollections command models db) = None"
    by (simp add: Mongo_sync_def Mongo_applyOperations_no_error)
  show "Mongo_sync (\<lambda>db. []) unauthorized_command [user_model] [] = (None, [])"
    by (simp add: Mongo_sync_def Mongo_planSync_def user_model_def unauthorized_command_def)
  show ops: "mp_operations (Postgres_planSync inherited ((\<lambda>t. None)(''users'' := Some [''id''])) [user_model])
       = [''ALTER TABLE '' @ dq @ ''users'' @ dq @ '' ADD COLUMN '' @ dq @ ''name'' @ dq @ '' VARCHAR(255);'',
          ''ALTER TABLE '' @ dq @ ''users'' @ dq @ '' ADD COLUMN '' @ dq @ ''age'' @ dq @ '' FLOAT;'']"
    by (simp add: Postgres_planSync_def user_model_def pgType_def typeMap_def fieldTypeOf_def)
  show "Postgres_sync inherited (\<lambda>db. (\<lambda>t. None)(''users'' := Some [''id''])) name_exists_run [user_model] []
       = (Some (BackendError ''column already exists''), [])"
    by (simp add: Postgres_sync_def ops name_exists_run_def)
qed

subsection \<open>The data field of a built AST\<close>

text \<open>
  Claim C10, as amended. For every sequence of builder calls, the AST returned by
  \<open>build()\<close> has its data field present exactly when \<open>insert\<close> or \<open>update\<close> was called at
  some point of the sequence; so an AST whose kind is insert or update always has data.
\<close>

theorem C10_builder_data:
  "(q_data (buildFrom tbl calls) \<noteq> None \<longleftrightarrow> (\<exists>c \<in> set calls. carriesData c))
   \<and> (q_type (buildFrom tbl calls) \<in> {Insert, Update} \<longrightarrow> q_data (buildFrom tbl calls) \<noteq> None)"
proof -
  have d: "q_data (buildFrom tbl calls) = b_data (foldl applyCall (QueryBuilder_new tbl) calls)"
    and m: "q_type (buildFrom tbl calls) = b_mode (foldl applyCall (QueryBuilder_new tbl) calls)"
    by (simp_all add: buildFrom_def builder_build_def)
  have "b_mode (QueryBuilder_new tbl) \<in> {Insert, Update} \<longrightarrow> b_data (QueryBuilder_new tbl) \<noteq> None"
    by (simp add: QueryBuilder_new_def)
  from foldl_mode[OF this, of calls]
  have b: "b_mode (foldl applyCall (QueryBuilder_new tbl) calls) \<in> {Insert, Update} \<longrightarrow>
           b_data (foldl applyCall (QueryBuilder_new tbl) calls) \<noteq> None" .
  have "b_data (QueryBuilder_new tbl) = None"
    by (simp add: QueryBuilder_new_def)
  with foldl_data[of "QueryBuilder_new tbl" calls]
  have a: "(b_data (foldl applyCall (QueryBuilder_new tbl) calls) \<noteq> None) = (\<exists>c \<in> set calls. carriesData c)"
    by auto
  show ?thesis unfolding d m using a b by blast
qed

text \<open>A \<open>where\<close> followed by an \<open>update\<close>.\<close>

theorem C10_builder_data_witness:
  "q_type (buildFrom ''users'' [CallWhere ''id'' Eq (JNum 1), CallUpdate [(''name'', JStr ''Bob'')]]) \<in> {Insert, Update}
   \<and> q_data (buildFrom ''users'' [CallWhere ''id'' Eq (JNum 1), CallUpdate [(''name'', JStr ''Bob'')]]) \<noteq> None"
  using C10_builder_data[of "''users''" "[CallWhere ''id'' Eq (JNum 1), CallUpdate [(''name'', JStr ''Bob'')]]"]
  by (simp add: buildFrom_def builder_build_def builder_defs QueryBuilder_new_def)

text \<open>
  Claim C10 as stated fails: \<open>delete()\<close> after \<open>insert(data)\<close> sets the kind to delete
  and keeps the data.
\<close>

theorem C10_counterexample:
  "q_type (buildFrom ''users'' [CallInsert [(''name'', JStr ''Alice'')], CallDelete]) = Delete
   \<and> q_data (buildFrom ''users'' [CallInsert [(''name'', JStr ''Alice'')], CallDelete])
       = Some [(''name'', JStr ''Alice'')]
   \<and> \<not> (q_data (buildFrom ''users'' [CallInsert [(''name'', JStr ''Alice'')], CallDelete]) \<noteq> None
           \<longleftrightarrow> q_type (buildFrom ''users'' [CallInsert [(''name'', JStr ''Alice'')], CallDelete])
                 \<in> {Insert, Update})"
  by (simp add: buildFrom_def builder_build_def builder_defs QueryBuilder_new_def)

end
